theory Spec2Isabelle
  imports Complex_Main "HOL-Library.Word" "HOL-Library.Multiset"
begin

section \<open>Graph data model\<close>

text \<open>
  The passes of \<^verbatim>\<open>optimizer_scripts/tools/replacing.py\<close> work on ONNX protobuf messages.
  Each message is a record of the fields the passes read or write; a field that is not
  set reads as its protobuf default (0, the empty list, the empty tensor).
  Floating-point payloads are carried as \<open>real\<close>: the passes only copy them.

  Embedded are \<^verbatim>\<open>replace_Reshape_with_Flatten\<close>, \<^verbatim>\<open>replace_Squeeze_with_Reshape\<close>,
  \<^verbatim>\<open>replace_Unsqueeze_with_Reshape\<close>, \<^verbatim>\<open>replace_dilated_conv\<close>,
  \<^verbatim>\<open>replace_depthwise_1x1_with_bn\<close>, \<^verbatim>\<open>replace_shape_with_constant\<close> and
  \<^verbatim>\<open>replace_split_with_slices\<close>. The modules \<^verbatim>\<open>helper\<close> and \<^verbatim>\<open>other\<close> that they call
  are not among the sources: the lookups and \<^verbatim>\<open>list_to_constant\<close> follow the
  specification, and \<^verbatim>\<open>topological_sort\<close> is a parameter of each pass that calls it.
\<close>

datatype error =
    RuntimeError string
  | IndexError
  | AttributeError
  | ValueError
  | KeyError
  | TypeError
  | ZeroDivisionError
  | StructError

text \<open>A tensor: the shape is a list of non-negative sizes; the values are in the typed
  array of the element type (\<^verbatim>\<open>float_data\<close> for FLOAT, \<^verbatim>\<open>int64_data\<close> for INT64) or packed in
  \<^verbatim>\<open>raw_data\<close>.\<close>

record tensor =
  t_name :: string
  data_type :: int
  dims :: "nat list"
  float_data :: "real list"
  int64_data :: "int list"
  raw_data :: "8 word list"

record attribute =
  a_name :: string
  a_i :: int
  a_f :: real
  a_ints :: "int list"
  a_t :: tensor

record node =
  op_type :: string
  n_name :: string
  n_input :: "string list"
  n_output :: "string list"
  n_attribute :: "attribute list"

text \<open>A dimension of a shape: a known size, a symbolic name, or nothing at all.
  Reading \<^verbatim>\<open>dim_value\<close> of a dimension that holds no size gives 0.\<close>

datatype dim = DimValue int | DimParam string | DimUnset

fun dim_value :: "dim \<Rightarrow> int" where
  "dim_value (DimValue v) = v"
| "dim_value (DimParam s) = 0"
| "dim_value DimUnset = 0"

record value_info =
  vi_name :: string
  elem_type :: int
  shape_dim :: "dim list"

record graph =
  g_node :: "node list"
  g_input :: "value_info list"
  g_output :: "value_info list"
  g_initializer :: "tensor list"
  g_value_info :: "value_info list"

text \<open>A pass mutates the caller's graph in place. A raised exception is returned together
  with the graph as it stands at the raise.\<close>

type_synonym 'a result = "(error \<times> graph) + 'a"

definition empty_tensor :: tensor where
  "empty_tensor = \<lparr>t_name = [], data_type = 0, dims = [], float_data = [],
     int64_data = [], raw_data = []\<rparr>"

definition attr_int :: "string \<Rightarrow> int \<Rightarrow> attribute" where
  "attr_int nm v = \<lparr>a_name = nm, a_i = v, a_f = 0, a_ints = [], a_t = empty_tensor\<rparr>"

definition attr_float :: "string \<Rightarrow> real \<Rightarrow> attribute" where
  "attr_float nm v = \<lparr>a_name = nm, a_i = 0, a_f = v, a_ints = [], a_t = empty_tensor\<rparr>"

definition attr_ints :: "string \<Rightarrow> int list \<Rightarrow> attribute" where
  "attr_ints nm vs = \<lparr>a_name = nm, a_i = 0, a_f = 0, a_ints = vs, a_t = empty_tensor\<rparr>"

definition attr_tensor :: "string \<Rightarrow> tensor \<Rightarrow> attribute" where
  "attr_tensor nm t = \<lparr>a_name = nm, a_i = 0, a_f = 0, a_ints = [], a_t = t\<rparr>"

text \<open>\<^verbatim>\<open>onnx.helper.make_node(op_type, inputs, outputs, name=..., **kwargs)\<close>: the caller
  passes the keyword attributes already in the sorted order in which make_node stores them.\<close>

definition make_node :: "string \<Rightarrow> string list \<Rightarrow> string list \<Rightarrow> string \<Rightarrow> attribute list \<Rightarrow> node" where
  "make_node op ins outs nm attrs =
     \<lparr>op_type = op, n_name = nm, n_input = ins, n_output = outs, n_attribute = attrs\<rparr>"

section \<open>Python list operations\<close>

text \<open>\<^verbatim>\<open>xs[i]\<close>: a negative index counts from the end, an index out of range raises.\<close>

definition py_index :: "'a list \<Rightarrow> int \<Rightarrow> 'a option" where
  "py_index xs i =
     (let n = int (length xs); j = (if i < 0 then n + i else i)
      in if 0 \<le> j \<and> j < n then Some (xs ! nat j) else None)"

text \<open>\<^verbatim>\<open>xs[k]\<close> for a literal index \<open>k \<ge> 0\<close>.\<close>

definition py_get :: "'a list \<Rightarrow> nat \<Rightarrow> 'a option" where
  "py_get xs k = (if k < length xs then Some (xs ! k) else None)"

text \<open>\<^verbatim>\<open>xs.remove(x)\<close> deletes the first element equal to \<open>x\<close> (protobuf messages compare by
  content) and raises when there is none.\<close>

definition py_remove :: "'a \<Rightarrow> 'a list \<Rightarrow> 'a list option" where
  "py_remove x xs = (if x \<in> set xs then Some (remove1 x xs) else None)"

fun find_first :: "('a \<Rightarrow> bool) \<Rightarrow> 'a list \<Rightarrow> nat option" where
  "find_first P [] = None"
| "find_first P (x # xs) = (if P x then Some 0 else map_option Suc (find_first P xs))"

section \<open>The lookup and construction service\<close>

text \<open>Modelled from the spec: \<^verbatim>\<open>helper.find_node_by_output_name(graph, name) -> Node | none\<close>
  of the absent module \<^verbatim>\<open>helper\<close> (name to node resolution). The node is returned as its
  position in the node list, the first node one of whose outputs is the name, because the
  passes mutate the node they get back.\<close>

definition find_node_by_output_name :: "graph \<Rightarrow> string \<Rightarrow> nat option" where
  "find_node_by_output_name g nm = find_first (\<lambda>n. nm \<in> set (n_output n)) (g_node g)"

text \<open>Modelled from the spec: \<^verbatim>\<open>helper.find_value_by_name(graph, name) -> ValueInfo | none\<close>
  (intermediate values only), as the position of the first entry of that name.\<close>

definition find_value_by_name :: "graph \<Rightarrow> string \<Rightarrow> nat option" where
  "find_value_by_name g nm = find_first (\<lambda>v. vi_name v = nm) (g_value_info g)"

text \<open>Modelled from the spec: \<^verbatim>\<open>helper.find_input_by_name\<close> and
  \<^verbatim>\<open>helper.find_output_by_name(graph, name) -> ValueInfo | none\<close>.\<close>

definition find_input_by_name :: "graph \<Rightarrow> string \<Rightarrow> nat option" where
  "find_input_by_name g nm = find_first (\<lambda>v. vi_name v = nm) (g_input g)"

definition find_output_by_name :: "graph \<Rightarrow> string \<Rightarrow> nat option" where
  "find_output_by_name g nm = find_first (\<lambda>v. vi_name v = nm) (g_output g)"

text \<open>Modelled from the spec:
  \<^verbatim>\<open>helper.find_size_shape_from_value(value) -> (element_count, shape)\<close>.\<close>

definition find_size_shape_from_value :: "value_info \<Rightarrow> int \<times> int list" where
  "find_size_shape_from_value v =
     (prod_list (map dim_value (shape_dim v)), map dim_value (shape_dim v))"

text \<open>The values a Python caller hands to \<^verbatim>\<open>list_to_constant\<close>: a list of ints or of floats.\<close>

datatype pyvals = Ints "int list" | Floats "real list"

text \<open>Modelled from the spec: \<^verbatim>\<open>helper.list_to_constant(name, shape, flat_values) -> Node\<close>
  builds a Constant node wrapping the given values reshaped to \<open>shape\<close>; the node and its
  single output carry the given name. Integer values make an INT64 tensor (element type 7),
  float values a FLOAT tensor (element type 1).\<close>

definition list_to_constant :: "string \<Rightarrow> nat list \<Rightarrow> pyvals \<Rightarrow> node" where
  "list_to_constant nm shape vals =
     make_node ''Constant'' [] [nm] nm
       [attr_tensor ''value''
          (case vals of
             Ints xs \<Rightarrow> \<lparr>t_name = nm, data_type = 7, dims = shape, float_data = [],
                          int64_data = xs, raw_data = []\<rparr>
           | Floats xs \<Rightarrow> \<lparr>t_name = nm, data_type = 1, dims = shape, float_data = xs,
                          int64_data = [], raw_data = []\<rparr>)]"

section \<open>Scanning the node list and removing the collected nodes\<close>

text \<open>
  Every pass is \<^verbatim>\<open>for node in g.node: ...\<close> followed by
  \<^verbatim>\<open>for node in node_to_remove: g.node.remove(node)\<close>. The loop body mutates nodes in place
  and appends new nodes to \<^verbatim>\<open>g.node\<close>, so the scan goes by position; the state of a scan is
  a pair whose first component is the graph.

  \<open>scan_growing\<close> is the loop as Python runs it: the iterator also reaches the nodes that
  the body appends, so the bound is the length of the node list at each step. The fuel
  bounds the number of steps; \<open>None\<close> means that it ran out.
\<close>

fun scan_growing ::
  "(nat \<Rightarrow> graph \<times> 'r \<Rightarrow> (graph \<times> 'r) result) \<Rightarrow> nat \<Rightarrow> nat \<Rightarrow> graph \<times> 'r
     \<Rightarrow> (graph \<times> 'r) result option" where
  "scan_growing body 0 i s = None"
| "scan_growing body (Suc fuel) i s =
     (if i < length (g_node (fst s))
      then (case body i s of
              Inl e \<Rightarrow> Some (Inl e)
            | Inr s' \<Rightarrow> scan_growing body fuel (Suc i) s')
      else Some (Inr s))"

text \<open>
  \<open>scan\<close> visits the positions of the nodes present when the loop starts, and no others.
  The passes are written with it: a node appended during a scan is a Constant, a Reshape,
  a BatchNormalization or a Slice node, which the body that appended it skips, so that
  both loops end in the same state (the theorems \<open>..._scan_growing\<close> below).
\<close>

fun scan :: "(nat \<Rightarrow> 's \<Rightarrow> 's result) \<Rightarrow> nat \<Rightarrow> nat \<Rightarrow> 's \<Rightarrow> 's result" where
  "scan body 0 i s = Inr s"
| "scan body (Suc k) i s =
     (case body i s of Inl e \<Rightarrow> Inl e | Inr s' \<Rightarrow> scan body k (Suc i) s')"

text \<open>\<^verbatim>\<open>node_to_remove\<close> holds references; when the removal loop runs, each stands for the
  node's content at that time.\<close>

fun remove_nodes :: "node list \<Rightarrow> graph \<Rightarrow> graph result" where
  "remove_nodes [] g = Inr g"
| "remove_nodes (x # xs) g =
     (case py_remove x (g_node g) of
        None \<Rightarrow> Inl (ValueError, g)
      | Some ns \<Rightarrow> remove_nodes xs (g\<lparr>g_node := ns\<rparr>))"

definition remove_collected :: "nat list \<Rightarrow> graph \<Rightarrow> graph result" where
  "remove_collected idxs g = remove_nodes (map (\<lambda>i. g_node g ! i) idxs) g"

section \<open>Shape constant folding\<close>

text \<open>The body of the loop of \<^verbatim>\<open>replace_shape_with_constant\<close> at position \<open>i\<close>. The state is
  the graph and \<^verbatim>\<open>node_to_remove\<close> (as positions).\<close>

definition resolve_value_or_input :: "graph \<Rightarrow> string \<Rightarrow> value_info option" where
  "resolve_value_or_input g nm =
     (case find_value_by_name g nm of
        Some j \<Rightarrow> Some (g_value_info g ! j)
      | None \<Rightarrow> map_option (\<lambda>j. g_input g ! j) (find_input_by_name g nm))"

definition val_info_used :: "graph \<Rightarrow> string \<Rightarrow> nat" where
  "val_info_used g nm = length (filter (\<lambda>n. nm \<in> set (n_input n)) (g_node g))"

definition replace_shape_with_constant_body ::
  "nat \<Rightarrow> graph \<times> nat list \<Rightarrow> (graph \<times> nat list) result" where
  "replace_shape_with_constant_body i st =
     (let g = fst st; node_to_remove = snd st; node = g_node g ! i in
      if op_type node \<noteq> ''Shape'' then Inr st
      else case py_get (n_input node) 0 of
        None \<Rightarrow> Inl (IndexError, g)
      | Some x \<Rightarrow>
          (case resolve_value_or_input g x of
             None \<Rightarrow> Inr st
           | Some input_value \<Rightarrow>
               if length (shape_dim input_value) = 0 then Inr st
               else
                 let input_shape = map dim_value (shape_dim input_value) in
                 (case py_get (n_output node) 0 of
                    None \<Rightarrow> Inl (IndexError, g)
                  | Some node_name \<Rightarrow>
                      let new_node = list_to_constant node_name [length input_shape]
                                       (Ints input_shape);
                          g1 = g\<lparr>g_node := g_node g @ [new_node]\<rparr>;
                          rem1 = node_to_remove @ [i]
                      in if val_info_used g1 (vi_name input_value) = 1
                         then (case py_remove input_value (g_value_info g1) of
                                 None \<Rightarrow> Inl (ValueError, g1)
                               | Some vs \<Rightarrow> Inr (g1\<lparr>g_value_info := vs\<rparr>, rem1))
                         else Inr (g1, rem1))))"

text \<open>The pass. \<open>topological_sort\<close> is the absent \<^verbatim>\<open>other.topological_sort\<close>, taken as a
  parameter: the stabilizer reorders the node list of the graph and is total.\<close>

definition replace_shape_with_constant ::
  "(graph \<Rightarrow> graph) \<Rightarrow> graph \<Rightarrow> (graph \<times> bool) result" where
  "replace_shape_with_constant topological_sort g =
     (case scan replace_shape_with_constant_body (length (g_node g)) 0 (g, []) of
        Inl e \<Rightarrow> Inl e
      | Inr st \<Rightarrow>
          let replaced = (length (snd st) > 0) in
          (case remove_collected (snd st) (fst st) of
             Inl e \<Rightarrow> Inl e
           | Inr g2 \<Rightarrow> Inr (topological_sort g2, replaced)))"

section \<open>Split to Slice decomposition\<close>

text \<open>\<^verbatim>\<open>split is not []\<close> compares the identity of \<open>split\<close> with that of a list created
  by the comparison itself, so it holds whatever \<open>split\<close> is.\<close>

definition is_not_fresh_list :: "int list \<Rightarrow> bool" where
  "is_not_fresh_list split = True"

text \<open>An attribute holds 64-bit integers: \<^verbatim>\<open>onnx.helper.make_node\<close> raises when it is handed
  a Python int outside that range.\<close>

definition in_int64 :: "int \<Rightarrow> bool" where
  "in_int64 v = (- (2 ^ 63) \<le> v \<and> v < 2 ^ 63)"

text \<open>The loop of the branch for explicit sizes, over \<^verbatim>\<open>node.attribute[1].ints\<close>. The running
  offset \<^verbatim>\<open>pos\<close> is a Python int and can leave the 64-bit range, in which case building
  the Slice node raises.\<close>

fun explicit_slices :: "node \<Rightarrow> int \<Rightarrow> int list \<Rightarrow> nat \<Rightarrow> int \<Rightarrow> graph \<Rightarrow> graph result" where
  "explicit_slices node axis [] i pos g = Inr g"
| "explicit_slices node axis (s # ss) i pos g =
     (let pos' = pos + s in
      case py_get (n_output node) i of
        None \<Rightarrow> Inl (IndexError, g)
      | Some new_node_name \<Rightarrow>
          if \<not> (in_int64 pos' \<and> in_int64 (pos' - s)) then Inl (ValueError, g)
          else
            explicit_slices node axis ss (Suc i) pos'
              (g\<lparr>g_node := g_node g @
                 [make_node ''Slice'' [n_input node ! 0] [new_node_name] new_node_name
                    [attr_ints ''axes'' [axis], attr_ints ''ends'' [pos'],
                     attr_ints ''starts'' [pos' - s]]]\<rparr>))"

text \<open>The loop of the branch for an even split, over \<^verbatim>\<open>outputs\<close>.\<close>

fun even_slices :: "string \<Rightarrow> int \<Rightarrow> int \<Rightarrow> string list \<Rightarrow> int \<Rightarrow> graph \<Rightarrow> graph" where
  "even_slices x axis width [] i g = g"
| "even_slices x axis width (out # outs) i g =
     even_slices x axis width outs (i + 1)
       (g\<lparr>g_node := g_node g @
          [make_node ''Slice'' [x] [out] out
             [attr_ints ''axes'' [axis], attr_ints ''ends'' [(1 + i) * width],
              attr_ints ''starts'' [i * width]]]\<rparr>)"

text \<open>The body of the loop of \<^verbatim>\<open>replace_split_with_slices\<close>. An operand that resolves neither
  as an intermediate value nor as a graph input leaves \<^verbatim>\<open>input_value\<close> at \<^verbatim>\<open>None\<close>; the
  lines that follow read its shape, which raises.\<close>

definition replace_split_with_slices_body ::
  "nat \<Rightarrow> graph \<times> nat list \<Rightarrow> (graph \<times> nat list) result" where
  "replace_split_with_slices_body i st =
     (let g = fst st; node_to_remove = snd st; node = g_node g ! i in
      if op_type node \<noteq> ''Split'' then Inr st
      else case py_get (n_input node) 0 of
        None \<Rightarrow> Inl (IndexError, g)
      | Some x \<Rightarrow>
          (case resolve_value_or_input g x of
             None \<Rightarrow> Inl (TypeError, g)
           | Some input_value \<Rightarrow>
               if length (snd (find_size_shape_from_value input_value)) = 0 then Inr st
               else
                 let axis = fold (\<lambda>item a. if a_name item = ''axis'' then a_i item else a)
                              (n_attribute node) 0;
                     split = fold (\<lambda>item s. if a_name item = ''split'' then a_ints item else s)
                              (n_attribute node) []
                 in (case py_index (shape_dim input_value) axis of
                       None \<Rightarrow> Inl (IndexError, g)
                     | Some d \<Rightarrow>
                         let len = dim_value d; outputs = n_output node in
                         if is_not_fresh_list split then
                           (case py_get (n_attribute node) 1 of
                              None \<Rightarrow> Inl (IndexError, g)
                            | Some a1 \<Rightarrow>
                                (case explicit_slices node axis (a_ints a1) 0 0 g of
                                   Inl e \<Rightarrow> Inl e
                                 | Inr g1 \<Rightarrow> Inr (g1, node_to_remove @ [i])))
                         else if length outputs = 0 then Inl (ZeroDivisionError, g)
                         else
                           Inr (even_slices x axis (len div int (length outputs)) outputs 0 g,
                                node_to_remove @ [i]))))"

definition replace_split_with_slices :: "(graph \<Rightarrow> graph) \<Rightarrow> graph \<Rightarrow> graph result" where
  "replace_split_with_slices topological_sort g =
     (case scan replace_split_with_slices_body (length (g_node g)) 0 (g, []) of
        Inl e \<Rightarrow> Inl e
      | Inr st \<Rightarrow>
          (case remove_collected (snd st) (fst st) of
             Inl e \<Rightarrow> Inl e
           | Inr g2 \<Rightarrow> Inr (topological_sort g2)))"

section \<open>Squeeze and Unsqueeze to Reshape\<close>

text \<open>\<^verbatim>\<open>replace_Squeeze_with_Reshape\<close> and \<^verbatim>\<open>replace_Unsqueeze_with_Reshape\<close> are the same
  function up to the operator type they select and the message of the error they raise;
  \<open>kind\<close> is that operator type.\<close>

definition resolve_value_or_output :: "graph \<Rightarrow> string \<Rightarrow> value_info option" where
  "resolve_value_or_output g nm =
     (case find_value_by_name g nm of
        Some j \<Rightarrow> Some (g_value_info g ! j)
      | None \<Rightarrow> map_option (\<lambda>j. g_output g ! j) (find_output_by_name g nm))"

definition squeeze_to_reshape_body ::
  "string \<Rightarrow> nat \<Rightarrow> graph \<times> nat list \<Rightarrow> (graph \<times> nat list) result" where
  "squeeze_to_reshape_body kind i st =
     (let g = fst st; node_to_remove = snd st; node = g_node g ! i in
      if op_type node \<noteq> kind then Inr st
      else case py_get (n_output node) 0 of
        None \<Rightarrow> Inl (IndexError, g)
      | Some out \<Rightarrow>
          (case resolve_value_or_output g out of
             None \<Rightarrow> Inl (RuntimeError (''Cannot get shape for '' @ kind), g)
           | Some output_value \<Rightarrow>
               let shape = map dim_value (shape_dim output_value);
                   const_node = list_to_constant (n_name node @ ''_shape'') [length shape]
                                  (Ints shape)
               in (case py_get (n_input node) 0 of
                     None \<Rightarrow> Inl (IndexError, g)
                   | Some x \<Rightarrow>
                       let new_node = make_node ''Reshape'' [x, n_name node @ ''_shape'']
                                        (n_output node) (n_name node) []
                       in Inr (g\<lparr>g_node := g_node g @ [const_node, new_node]\<rparr>,
                               node_to_remove @ [i]))))"

definition squeeze_to_reshape :: "string \<Rightarrow> (graph \<Rightarrow> graph) \<Rightarrow> graph \<Rightarrow> graph result" where
  "squeeze_to_reshape kind topological_sort g =
     (case scan (squeeze_to_reshape_body kind) (length (g_node g)) 0 (g, []) of
        Inl e \<Rightarrow> Inl e
      | Inr st \<Rightarrow>
          (case remove_collected (snd st) (fst st) of
             Inl e \<Rightarrow> Inl e
           | Inr g2 \<Rightarrow> Inr (topological_sort g2)))"

definition replace_Squeeze_with_Reshape :: "(graph \<Rightarrow> graph) \<Rightarrow> graph \<Rightarrow> graph result" where
  "replace_Squeeze_with_Reshape = squeeze_to_reshape ''Squeeze''"

definition replace_Unsqueeze_with_Reshape :: "(graph \<Rightarrow> graph) \<Rightarrow> graph \<Rightarrow> graph result" where
  "replace_Unsqueeze_with_Reshape = squeeze_to_reshape ''Unsqueeze''"

section \<open>Reshape to Flatten\<close>

text \<open>The inner loop that sets \<^verbatim>\<open>found\<close>: some node whose first input is the Reshape's first
  output is a Gemm. \<open>None\<close> is the IndexError of \<^verbatim>\<open>node.output[0]\<close>.\<close>

fun followed_by_gemm :: "node list \<Rightarrow> string list \<Rightarrow> bool option" where
  "followed_by_gemm [] outs = Some False"
| "followed_by_gemm (n # ns) outs =
     (if length (n_input n) = 0 then followed_by_gemm ns outs
      else case py_get outs 0 of
        None \<Rightarrow> None
      | Some out \<Rightarrow>
          if n_input n ! 0 \<noteq> out then followed_by_gemm ns outs
          else if op_type n = ''Gemm'' then Some True
          else followed_by_gemm ns outs)"

text \<open>The body of the loop of \<^verbatim>\<open>replace_Reshape_with_Flatten\<close>. The node is retagged and
  loses its attributes and its last input before the ValueInfo of the shape is removed;
  \<^verbatim>\<open>g.value_info.remove(None)\<close>, when the shape has no ValueInfo, raises with these changes
  made.\<close>

definition replace_Reshape_with_Flatten_body ::
  "nat \<Rightarrow> graph \<times> nat list \<Rightarrow> (graph \<times> nat list) result" where
  "replace_Reshape_with_Flatten_body i st =
     (let g = fst st; node_to_remove = snd st; node = g_node g ! i in
      if op_type node \<noteq> ''Reshape'' then Inr st
      else case followed_by_gemm (g_node g) (n_output node) of
        None \<Rightarrow> Inl (IndexError, g)
      | Some found \<Rightarrow>
          if \<not> found then Inr st
          else (case py_get (n_input node) 1 of
             None \<Rightarrow> Inl (IndexError, g)
           | Some shape_name \<Rightarrow>
               (case find_node_by_output_name g shape_name of
                  None \<Rightarrow> Inl (AttributeError, g)
                | Some k \<Rightarrow>
                    let shape_node = g_node g ! k in
                    if op_type shape_node \<noteq> ''Constant'' then Inr st
                    else
                      let g1 = g\<lparr>g_node := (g_node g)
                                 [i := node\<lparr>op_type := ''Flatten'', n_attribute := []\<rparr>]\<rparr>
                      in (case py_get (n_output shape_node) 0 of
                            None \<Rightarrow> Inl (IndexError, g1)
                          | Some shape_out \<Rightarrow>
                              let shape_value = find_value_by_name g1 shape_out;
                                  g2 = g1\<lparr>g_node := (g_node g1)
                                         [i := (g_node g1 ! i)\<lparr>n_input := butlast (n_input node)\<rparr>]\<rparr>;
                                  rem1 = node_to_remove @ [k]
                              in (case shape_value of
                                    None \<Rightarrow> Inl (ValueError, g2)
                                  | Some j \<Rightarrow>
                                      Inr (g2\<lparr>g_value_info :=
                                               remove1 (g_value_info g2 ! j) (g_value_info g2)\<rparr>,
                                           rem1))))))"

definition replace_Reshape_with_Flatten :: "graph \<Rightarrow> graph result" where
  "replace_Reshape_with_Flatten g =
     (case scan replace_Reshape_with_Flatten_body (length (g_node g)) 0 (g, []) of
        Inl e \<Rightarrow> Inl e
      | Inr st \<Rightarrow> remove_collected (snd st) (fst st))"

section \<open>Dilated convolution expansion\<close>

text \<open>The loop over the attributes that sets \<^verbatim>\<open>has_dilations\<close>, \<^verbatim>\<open>has_strides\<close> and
  \<^verbatim>\<open>dilations\<close>. The body reads \<^verbatim>\<open>dilations\<close> only when \<^verbatim>\<open>has_dilations\<close> holds, that is
  after this loop has assigned it for the node at hand, so the initial value is never read.\<close>

fun conv_flags :: "attribute list \<Rightarrow> bool \<times> bool \<times> int list \<Rightarrow> bool \<times> bool \<times> int list" where
  "conv_flags [] acc = acc"
| "conv_flags (attr # attrs) (has_dilations, has_strides, dilations) =
     (let (hd1, dil1) =
            (if a_name attr = ''dilations''
             then (if a_ints attr \<noteq> [1, 1] then True else has_dilations, a_ints attr)
             else (has_dilations, dilations));
          hs1 = (if a_name attr = ''strides'' \<and> a_ints attr \<noteq> [1, 1] then True
                 else has_strides)
      in conv_flags attrs (hd1, hs1, dil1))"

text \<open>\<^verbatim>\<open>struct.iter_unpack('f', raw_data)\<close>: the buffer is cut into groups of four bytes, each
  decoded to a float by \<open>unpack_f\<close> (the IEEE decoding, a parameter); a buffer whose length
  is not a multiple of four raises.\<close>

fun chunks4 :: "'a list \<Rightarrow> 'a list list" where
  "chunks4 (a # b # c # d # rest) = [a, b, c, d] # chunks4 rest"
| "chunks4 xs = []"

definition iter_unpack_f :: "(8 word list \<Rightarrow> real) \<Rightarrow> 8 word list \<Rightarrow> real list option" where
  "iter_unpack_f unpack_f raw =
     (if length raw mod 4 \<noteq> 0 then None else Some (map unpack_f (chunks4 raw)))"

text \<open>Arrays are kept flat, in row-major order, as \<^verbatim>\<open>ravel\<close> returns them. An index into an
  axis of size \<open>n\<close> may be negative and then counts from the end.\<close>

definition np_index :: "int \<Rightarrow> int \<Rightarrow> nat option" where
  "np_index n i =
     (if 0 \<le> i \<and> i < n then Some (nat i)
      else if - n \<le> i \<and> i < 0 then Some (nat (n + i))
      else None)"

text \<open>The row-major position of an index tuple in an array of the given shape.\<close>

definition flat_index :: "nat list \<Rightarrow> nat list \<Rightarrow> nat" where
  "flat_index shape idx = foldl (\<lambda>acc (n, k). acc * n + k) 0 (zip shape idx)"

text \<open>\<^verbatim>\<open>new_weight[batch, ch, nh, nw] = weight[batch, ch, h, w]\<close> copies one entry, or one
  block of \<open>rest\<close> entries when the shape has more than four axes; \<open>src\<close> and \<open>dst\<close> are the
  row-major positions of the two index tuples among the first four axes.\<close>

definition copy_tap :: "nat \<Rightarrow> real list \<Rightarrow> nat \<Rightarrow> nat \<Rightarrow> real list \<Rightarrow> real list" where
  "copy_tap rest weight src dst new_weight =
     fold (\<lambda>r acc. acc[dst * rest + r := weight ! (src * rest + r)]) [0..<rest] new_weight"

definition for_range :: "nat \<Rightarrow> (nat \<Rightarrow> 's \<Rightarrow> 's option) \<Rightarrow> 's \<Rightarrow> 's option" where
  "for_range n f s = fold (\<lambda>k acc. Option.bind acc (f k)) [0..<n] (Some s)"

text \<open>The four nested loops that fill \<^verbatim>\<open>new_weight = np.zeros(new_shape)\<close>; \<open>None\<close> is the
  IndexError of an assignment outside the new array.\<close>

definition expand_weight ::
  "nat list \<Rightarrow> int \<Rightarrow> int \<Rightarrow> int \<Rightarrow> int \<Rightarrow> real list \<Rightarrow> real list option" where
  "expand_weight shape d0 d1 new_h new_w weight =
     (let rest = prod_list (drop 4 shape);
          co = shape ! 0; ci = shape ! 1; kh = shape ! 2; kw = shape ! 3
      in for_range co (\<lambda>batch.
           for_range ci (\<lambda>ch.
             for_range kh (\<lambda>h.
               let nh = int h * d0 in
               for_range kw (\<lambda>w.
                 let nw = int w * d1 in
                 (\<lambda>new_weight.
                    case np_index new_h nh of
                      None \<Rightarrow> None
                    | Some y \<Rightarrow>
                        (case np_index new_w nw of
                           None \<Rightarrow> None
                         | Some x \<Rightarrow>
                             Some (copy_tap rest weight
                                     (flat_index [co, ci, kh, kw] [batch, ch, h, w])
                                     (flat_index [co, ci, nat new_h, nat new_w] [batch, ch, y, x])
                                     new_weight)))))))
           (replicate (co * ci * nat new_h * nat new_w * rest) 0))"

text \<open>The values of the weight tensor: \<^verbatim>\<open>float_data\<close>, or when that is empty the floats
  unpacked from \<^verbatim>\<open>raw_data\<close>.\<close>

definition tensor_floats :: "(8 word list \<Rightarrow> real) \<Rightarrow> tensor \<Rightarrow> real list option" where
  "tensor_floats unpack_f t =
     (if length (float_data t) = 0 then iter_unpack_f unpack_f (raw_data t)
      else Some (float_data t))"

text \<open>\<^verbatim>\<open>ints[0] = a; ints[1] = b\<close> on a repeated field: an assignment past the end raises,
  after the assignments before it have been made. The flag tells whether both were made.\<close>

definition set_two :: "int \<Rightarrow> int \<Rightarrow> int list \<Rightarrow> int list \<times> bool" where
  "set_two a b xs =
     (if length xs = 0 then (xs, False)
      else if length xs = 1 then (xs[0 := a], False)
      else (xs[0 := a, 1 := b], True))"

text \<open>The final loop over the attributes of the Conv node.\<close>

fun rewrite_conv_attrs :: "int \<Rightarrow> int \<Rightarrow> attribute list \<Rightarrow> attribute list \<times> bool" where
  "rewrite_conv_attrs nh nw [] = ([], True)"
| "rewrite_conv_attrs nh nw (attr # attrs) =
     (let (ints1, ok1) = (if a_name attr = ''kernel_shape'' then set_two nh nw (a_ints attr)
                          else (a_ints attr, True))
      in if \<not> ok1 then (attr\<lparr>a_ints := ints1\<rparr> # attrs, False)
         else
           let (ints2, ok2) = (if a_name attr = ''dilations'' then set_two 1 1 ints1
                               else (ints1, True))
           in if \<not> ok2 then (attr\<lparr>a_ints := ints2\<rparr> # attrs, False)
              else
                let (attrs', ok) = rewrite_conv_attrs nh nw attrs
                in (attr\<lparr>a_ints := ints2\<rparr> # attrs', ok))"

text \<open>\<^verbatim>\<open>dim[2].dim_value = a; dim[3].dim_value = b\<close> on the shape of the weight's ValueInfo.\<close>

definition set_spatial_dims :: "int \<Rightarrow> int \<Rightarrow> dim list \<Rightarrow> dim list \<times> bool" where
  "set_spatial_dims a b ds =
     (if length ds \<le> 2 then (ds, False)
      else if length ds = 3 then (ds[2 := DimValue a], False)
      else (ds[2 := DimValue a, 3 := DimValue b], True))"

text \<open>The state of the scan: the graph, \<^verbatim>\<open>node_to_remove\<close> and the warnings printed so far.
  \<^verbatim>\<open>onnx.helper.make_tensor\<close> stores the values of a FLOAT tensor in \<^verbatim>\<open>float_data\<close>.\<close>

definition replace_dilated_conv_body ::
  "(8 word list \<Rightarrow> real) \<Rightarrow> nat \<Rightarrow> graph \<times> nat list \<times> string list
     \<Rightarrow> (graph \<times> nat list \<times> string list) result" where
  "replace_dilated_conv_body unpack_f i st =
     (let g = fst st; node_to_remove = fst (snd st); warnings = snd (snd st);
          node = g_node g ! i in
      if op_type node \<noteq> ''Conv'' then Inr st
      else
        let flags = conv_flags (n_attribute node) (False, False, []);
            has_dilations = fst flags; has_strides = fst (snd flags);
            dilations = snd (snd flags)
        in if has_dilations \<and> has_strides
           then Inr (g, node_to_remove,
                     warnings @ [''Warning: Both strides and dilations are set in  '' @ n_name node])
           else if \<not> has_dilations then Inr st
           else (case py_get (n_input node) 1 of
              None \<Rightarrow> Inl (IndexError, g)
            | Some w_name \<Rightarrow>
                (case find_node_by_output_name g w_name of
                   None \<Rightarrow> Inl (AttributeError, g)
                 | Some k \<Rightarrow>
                     let w_node = g_node g ! k; w_output = find_value_by_name g w_name in
                     (case py_get (n_attribute w_node) 0 of
                        None \<Rightarrow> Inl (IndexError, g)
                      | Some a0 \<Rightarrow>
                          let t = a_t a0; shape = dims t in
                          (case tensor_floats unpack_f t of
                             None \<Rightarrow> Inl (StructError, g)
                           | Some weight \<Rightarrow>
                               if length weight \<noteq> prod_list shape then Inl (ValueError, g)
                               else if length shape < 4 \<or> length dilations < 2
                               then Inl (IndexError, g)
                               else
                                 let d0 = dilations ! 0; d1 = dilations ! 1;
                                     new_h = 1 + (int (shape ! 2) - 1) * d0;
                                     new_w = 1 + (int (shape ! 3) - 1) * d1
                                 in if new_h < 0 \<or> new_w < 0 then Inl (ValueError, g)
                                    else (case expand_weight shape d0 d1 new_h new_w weight of
                                       None \<Rightarrow> Inl (IndexError, g)
                                     | Some new_weight \<Rightarrow>
                                         let new_shape = shape[2 := nat new_h, 3 := nat new_w];
                                             tensor = \<lparr>t_name = t_name t, data_type = data_type t,
                                                       dims = new_shape, float_data = new_weight,
                                                       int64_data = [], raw_data = []\<rparr>;
                                             new_w_node = make_node ''Constant'' [] (n_output w_node)
                                                            (n_name w_node) [attr_tensor ''value'' tensor];
                                             g1 = g\<lparr>g_node := g_node g @ [new_w_node]\<rparr>;
                                             rem1 = node_to_remove @ [k]
                                         in (case w_output of
                                               None \<Rightarrow> Inl (AttributeError, g1)
                                             | Some j \<Rightarrow>
                                                 let vi = g_value_info g1 ! j;
                                                     ds = set_spatial_dims new_h new_w (shape_dim vi);
                                                     g2 = g1\<lparr>g_value_info := (g_value_info g1)
                                                            [j := vi\<lparr>shape_dim := fst ds\<rparr>]\<rparr>
                                                 in if \<not> snd ds then Inl (IndexError, g2)
                                                    else
                                                      let as = rewrite_conv_attrs new_h new_w
                                                                 (n_attribute (g_node g2 ! i));
                                                          g3 = g2\<lparr>g_node := (g_node g2)
                                                                 [i := (g_node g2 ! i)\<lparr>n_attribute := fst as\<rparr>]\<rparr>
                                                      in if \<not> snd as then Inl (IndexError, g3)
                                                         else Inr (g3, rem1, warnings))))))))"

definition replace_dilated_conv ::
  "(8 word list \<Rightarrow> real) \<Rightarrow> graph \<Rightarrow> (graph \<times> string list) result" where
  "replace_dilated_conv unpack_f g =
     (case scan (replace_dilated_conv_body unpack_f) (length (g_node g)) 0 (g, [], []) of
        Inl e \<Rightarrow> Inl e
      | Inr st \<Rightarrow>
          (case remove_collected (fst (snd st)) (fst st) of
             Inl e \<Rightarrow> Inl e
           | Inr g2 \<Rightarrow> Inr (g2, snd (snd st))))"

section \<open>Depthwise 1x1 convolution to BatchNormalization\<close>

text \<open>\<^verbatim>\<open>{attr.name: attr for attr in node.attribute}\<close>: of two attributes of one name the
  later one stays.\<close>

definition attr_map :: "attribute list \<Rightarrow> string \<Rightarrow> attribute option" where
  "attr_map attrs = map_of (rev (map (\<lambda>a. (a_name a, a)) attrs))"

text \<open>Three \<^verbatim>\<open>pop()\<close> in a row: popping an empty list raises, after the list has been
  emptied.\<close>

definition pop3 :: "'a list \<Rightarrow> 'a list \<times> bool" where
  "pop3 xs = (take (length xs - 3) xs, 3 \<le> length xs)"

definition squeeze_scale_info :: "graph \<Rightarrow> string \<Rightarrow> graph \<times> bool" where
  "squeeze_scale_info g nm =
     (case find_value_by_name g nm of
        None \<Rightarrow> (g, True)
      | Some j \<Rightarrow>
          let vi = g_value_info g ! j; p = pop3 (shape_dim vi)
          in (g\<lparr>g_value_info := (g_value_info g)[j := vi\<lparr>shape_dim := fst p\<rparr>]\<rparr>, snd p))"

text \<open>The body of the loop of \<^verbatim>\<open>replace_depthwise_1x1_with_bn\<close>. The scale node is mutated
  in place, at its position \<open>k\<close>. The tensors built for the bias, the mean and the variance
  have one axis of \<^verbatim>\<open>group\<close> entries; \<^verbatim>\<open>[0.0] * group\<close> is the empty list when \<^verbatim>\<open>group\<close> is
  not positive.\<close>

text \<open>\<^verbatim>\<open>onnx.helper.make_node\<close> stores a float attribute in the 32-bit field \<^verbatim>\<open>f\<close>: the
  literals \<^verbatim>\<open>0.00001\<close> and \<^verbatim>\<open>0.9\<close> are stored as the nearest 32-bit floats, which are
  \<open>10995116 / 2^40\<close> and \<open>15099494 / 2^24\<close>.\<close>

definition epsilon_f32 :: real where
  "epsilon_f32 = 10995116 / 2 ^ 40"

definition momentum_f32 :: real where
  "momentum_f32 = 15099494 / 2 ^ 24"

definition replace_depthwise_1x1_with_bn_body ::
  "nat \<Rightarrow> graph \<times> nat list \<Rightarrow> (graph \<times> nat list) result" where
  "replace_depthwise_1x1_with_bn_body i st =
     (let g = fst st; node_to_remove = snd st; node = g_node g ! i in
      if op_type node \<noteq> ''Conv'' then Inr st
      else
        let am = attr_map (n_attribute node) in
        (case am ''group'' of
           None \<Rightarrow> Inr st
         | Some group_attr \<Rightarrow>
             if a_i group_attr = 1 then Inr st
             else (case am ''kernel_shape'' of
                None \<Rightarrow> Inl (KeyError, g)
              | Some ks \<Rightarrow>
                  (case py_get (a_ints ks) 0 of
                     None \<Rightarrow> Inl (IndexError, g)
                   | Some k0 \<Rightarrow>
                       if k0 \<noteq> 1 then Inr st
                       else (case py_get (a_ints ks) 1 of
                          None \<Rightarrow> Inl (IndexError, g)
                        | Some k1 \<Rightarrow>
                            if k1 \<noteq> 1 then Inr st
                            else if (case am ''pads'' of
                                       None \<Rightarrow> False
                                     | Some pads \<Rightarrow> sum_list (a_ints pads) \<noteq> 0)
                            then Inr st
                            else (case py_get (n_input node) 1 of
                               None \<Rightarrow> Inl (IndexError, g)
                             | Some scale_name \<Rightarrow>
                                 (case find_node_by_output_name g scale_name of
                                    None \<Rightarrow> Inr st
                                  | Some k \<Rightarrow>
                                      let scale_node = g_node g ! k in
                                      (case py_get (n_attribute scale_node) 0 of
                                         None \<Rightarrow> Inl (IndexError, g)
                                       | Some a0 \<Rightarrow>
                                           (case py_get (dims (a_t a0)) 1 of
                                              None \<Rightarrow> Inl (IndexError, g)
                                            | Some c \<Rightarrow>
                                                if c \<noteq> 1 then Inr st
                                                else
                                                  let p = pop3 (dims (a_t a0));
                                                      g1 = g\<lparr>g_node := (g_node g)
                                                             [k := scale_node\<lparr>n_attribute :=
                                                                (n_attribute scale_node)
                                                                  [0 := a0\<lparr>a_t := (a_t a0)\<lparr>dims := fst p\<rparr>\<rparr>]\<rparr>]\<rparr>
                                                  in if \<not> snd p then Inl (IndexError, g1)
                                                     else
                                                       let si = squeeze_scale_info g1 scale_name;
                                                           g2 = fst si
                                                       in if \<not> snd si then Inl (IndexError, g2)
                                                          else
                                                            let group = a_i group_attr;
                                                                zeros = Floats (replicate (nat group) 0);
                                                                ones = Floats (replicate (nat group) 1);
                                                                has_bias = (length (n_input node) = 3);
                                                                bias_name = (if has_bias then n_input node ! 2
                                                                             else n_name node @ ''_bias'');
                                                                g3 = (if has_bias then g2
                                                                      else g2\<lparr>g_node := g_node g2 @
                                                                        [list_to_constant bias_name [nat group] zeros]\<rparr>);
                                                                mean_name = n_name node @ ''_mean'';
                                                                mean_node = list_to_constant mean_name [nat group] zeros;
                                                                var_name = n_name node @ ''_var'';
                                                                var_node = list_to_constant var_name [nat group] ones;
                                                                g4 = g3\<lparr>g_node := g_node g3 @ [mean_node, var_node]\<rparr>;
                                                                bn_node = make_node ''BatchNormalization''
                                                                  [n_input node ! 0, n_input node ! 1, bias_name,
                                                                   mean_name, var_name]
                                                                  (n_output node) (n_name node)
                                                                  [attr_float ''epsilon'' epsilon_f32,
                                                                   attr_float ''momentum'' momentum_f32]
                                                            in Inr (g4\<lparr>g_node := g_node g4 @ [bn_node]\<rparr>,
                                                                    node_to_remove @ [i]))))))))))"

definition replace_depthwise_1x1_with_bn :: "(graph \<Rightarrow> graph) \<Rightarrow> graph \<Rightarrow> graph result" where
  "replace_depthwise_1x1_with_bn topological_sort g =
     (case scan replace_depthwise_1x1_with_bn_body (length (g_node g)) 0 (g, []) of
        Inl e \<Rightarrow> Inl e
      | Inr st \<Rightarrow>
          (case remove_collected (snd st) (fst st) of
             Inl e \<Rightarrow> Inl e
           | Inr g2 \<Rightarrow> Inr (topological_sort g2)))"

section \<open>Example graphs\<close>

definition input_X9 :: value_info where
  "input_X9 = \<lparr>vi_name = ''X'', elem_type = 1, shape_dim = [DimValue 9]\<rparr>"

definition relu_of_a :: node where
  "relu_of_a = make_node ''Relu'' [''a''] [''y''] ''relu'' []"

text \<open>A Split of a vector of 9 entries into the three outputs a, b, c, with the given
  attributes, followed by a Relu that reads a.\<close>

definition split_graph :: "attribute list \<Rightarrow> graph" where
  "split_graph attrs =
     \<lparr>g_node = [make_node ''Split'' [''X''] [''a'', ''b'', ''c''] ''split'' attrs, relu_of_a],
      g_input = [input_X9], g_output = [], g_initializer = [], g_value_info = []\<rparr>"

definition slice_node :: "string \<Rightarrow> int \<Rightarrow> int \<Rightarrow> node" where
  "slice_node out start end =
     make_node ''Slice'' [''X''] [out] out
       [attr_ints ''axes'' [0], attr_ints ''ends'' [end], attr_ints ''starts'' [start]]"

text \<open>A Shape node that reads the graph input X, of shape 2 x 3, followed by a Cast of the
  result.\<close>

definition input_X23 :: value_info where
  "input_X23 = \<lparr>vi_name = ''X'', elem_type = 1, shape_dim = [DimValue 2, DimValue 3]\<rparr>"

definition shape_of_input_graph :: graph where
  "shape_of_input_graph =
     \<lparr>g_node = [make_node ''Shape'' [''X''] [''s''] ''shape'' [],
                make_node ''Cast'' [''s''] [''y''] ''cast'' [attr_int ''to'' 1]],
      g_input = [input_X23], g_output = [], g_initializer = [], g_value_info = []\<rparr>"

text \<open>A Shape node whose operand T is an intermediate value with a symbolic first dimension.\<close>

definition value_T :: value_info where
  "value_T = \<lparr>vi_name = ''T'', elem_type = 1, shape_dim = [DimParam ''N'', DimValue 3]\<rparr>"

definition shape_unknown_dim_graph :: graph where
  "shape_unknown_dim_graph =
     \<lparr>g_node = [make_node ''Relu'' [''X''] [''T''] ''relu'' [],
                make_node ''Shape'' [''T''] [''s''] ''shape'' [],
                make_node ''Cast'' [''s''] [''y''] ''cast'' [attr_int ''to'' 1]],
      g_input = [\<lparr>vi_name = ''X'', elem_type = 1, shape_dim = [DimParam ''N'', DimValue 3]\<rparr>],
      g_output = [], g_initializer = [], g_value_info = [value_T]\<rparr>"

text \<open>A Conv node with both a dilation and a stride of 2.\<close>

definition conflict_conv :: node where
  "conflict_conv = make_node ''Conv'' [''X'', ''W''] [''Y''] ''conv''
     [attr_ints ''dilations'' [2, 2], attr_ints ''kernel_shape'' [2, 2],
      attr_ints ''strides'' [2, 2]]"

definition conflict_conv_graph :: graph where
  "conflict_conv_graph =
     \<lparr>g_node = [conflict_conv, make_node ''Relu'' [''Y''] [''Z''] ''relu'' []],
      g_input = [], g_output = [], g_initializer = [], g_value_info = []\<rparr>"

text \<open>A depthwise 1x1 convolution over two channels, without a bias input.\<close>

definition depthwise_weight :: tensor where
  "depthwise_weight = \<lparr>t_name = ''W'', data_type = 1, dims = [2, 1, 1, 1],
     float_data = [3, 5], int64_data = [], raw_data = []\<rparr>"

definition depthwise_conv :: node where
  "depthwise_conv = make_node ''Conv'' [''X'', ''W''] [''Y''] ''dw''
     [attr_int ''group'' 2, attr_ints ''kernel_shape'' [1, 1], attr_ints ''pads'' [0, 0, 0, 0]]"

definition depthwise_graph :: graph where
  "depthwise_graph =
     \<lparr>g_node = [make_node ''Constant'' [] [''W''] ''W'' [attr_tensor ''value'' depthwise_weight],
                depthwise_conv],
      g_input = [\<lparr>vi_name = ''X'', elem_type = 1,
                   shape_dim = [DimValue 1, DimValue 2, DimValue 4, DimValue 4]\<rparr>],
      g_output = [\<lparr>vi_name = ''Y'', elem_type = 1,
                   shape_dim = [DimValue 1, DimValue 2, DimValue 4, DimValue 4]\<rparr>],
      g_initializer = [],
      g_value_info = [\<lparr>vi_name = ''W'', elem_type = 1,
                        shape_dim = [DimValue 2, DimValue 1, DimValue 1, DimValue 1]\<rparr>]\<rparr>"

text \<open>A Reshape whose result is read by a Gemm and by a Relu; its shape operand is the
  Constant S.\<close>

definition shape_constant :: node where
  "shape_constant = list_to_constant ''S'' [2] (Ints [1, -1])"

definition value_S :: value_info where
  "value_S = \<lparr>vi_name = ''S'', elem_type = 7, shape_dim = [DimValue 2]\<rparr>"

definition reshape_node :: node where
  "reshape_node = make_node ''Reshape'' [''X'', ''S''] [''R''] ''reshape'' []"

definition gemm_node :: node where
  "gemm_node = make_node ''Gemm'' [''R'', ''W'', ''B''] [''Y''] ''gemm'' []"

definition relu_of_R :: node where
  "relu_of_R = make_node ''Relu'' [''R''] [''Z''] ''relu'' []"

definition reshape_two_consumers_graph :: graph where
  "reshape_two_consumers_graph =
     \<lparr>g_node = [shape_constant, reshape_node, gemm_node, relu_of_R],
      g_input = [], g_output = [], g_initializer = [], g_value_info = [value_S]\<rparr>"

text \<open>A Squeeze or Unsqueeze node with output Y, and the given intermediate values.\<close>

definition value_Y :: value_info where
  "value_Y = \<lparr>vi_name = ''Y'', elem_type = 1, shape_dim = [DimValue 3, DimValue 4]\<rparr>"

definition squeeze_graph :: "string \<Rightarrow> value_info list \<Rightarrow> graph" where
  "squeeze_graph kind values =
     \<lparr>g_node = [make_node kind [''X''] [''Y''] ''sq'' [attr_ints ''axes'' [0]],
                make_node ''Relu'' [''Y''] [''Z''] ''relu'' []],
      g_input = [\<lparr>vi_name = ''X'', elem_type = 1,
                   shape_dim = [DimValue 1, DimValue 3, DimValue 4]\<rparr>],
      g_output = [], g_initializer = [], g_value_info = values\<rparr>"

text \<open>The example of the specification: a 2 x 2 kernel with values 1, 2, 3, 4 and dilation
  [2, 2], and the graph the pass turns it into.\<close>

definition dilated_weight :: tensor where
  "dilated_weight = \<lparr>t_name = ''W'', data_type = 1, dims = [1, 1, 2, 2],
     float_data = [1, 2, 3, 4], int64_data = [], raw_data = []\<rparr>"

definition dilated_conv :: node where
  "dilated_conv = make_node ''Conv'' [''X'', ''W''] [''Y''] ''conv''
     [attr_ints ''dilations'' [2, 2], attr_ints ''kernel_shape'' [2, 2],
      attr_ints ''strides'' [1, 1]]"

definition dilated_conv_graph :: graph where
  "dilated_conv_graph =
     \<lparr>g_node = [make_node ''Constant'' [] [''W''] ''W'' [attr_tensor ''value'' dilated_weight],
                dilated_conv],
      g_input = [], g_output = [], g_initializer = [],
      g_value_info = [\<lparr>vi_name = ''W'', elem_type = 1,
                        shape_dim = [DimValue 1, DimValue 1, DimValue 2, DimValue 2]\<rparr>]\<rparr>"

definition expanded_weight :: tensor where
  "expanded_weight = \<lparr>t_name = ''W'', data_type = 1, dims = [1, 1, 3, 3],
     float_data = [1, 0, 2, 0, 0, 0, 3, 0, 4], int64_data = [], raw_data = []\<rparr>"

definition expanded_conv_graph :: graph where
  "expanded_conv_graph =
     \<lparr>g_node = [make_node ''Conv'' [''X'', ''W''] [''Y''] ''conv''
                  [attr_ints ''dilations'' [1, 1], attr_ints ''kernel_shape'' [3, 3],
                   attr_ints ''strides'' [1, 1]],
                make_node ''Constant'' [] [''W''] ''W'' [attr_tensor ''value'' expanded_weight]],
      g_input = [], g_output = [], g_initializer = [],
      g_value_info = [\<lparr>vi_name = ''W'', elem_type = 1,
                        shape_dim = [DimValue 1, DimValue 1, DimValue 3, DimValue 3]\<rparr>]\<rparr>"

text \<open>The graph input X read by a Shape node and by no other node; the output of the Shape
  node has a ValueInfo among the intermediate values.\<close>

definition shape_of_input_info_graph :: graph where
  "shape_of_input_info_graph =
     \<lparr>g_node = [make_node ''Shape'' [''X''] [''s''] ''shape'' [],
                make_node ''Relu'' [''s''] [''r''] ''relu'' []],
      g_input = [input_X23], g_output = [], g_initializer = [],
      g_value_info = [\<lparr>vi_name = ''s'', elem_type = 7, shape_dim = [DimValue 2]\<rparr>]\<rparr>"

text \<open>The intermediate value T read by a Shape node and by a Relu.\<close>

definition shape_two_readers_graph :: graph where
  "shape_two_readers_graph =
     \<lparr>g_node = [make_node ''Relu'' [''X''] [''T''] ''relu'' [],
                make_node ''Shape'' [''T''] [''s''] ''shape'' [],
                make_node ''Relu'' [''T''] [''y''] ''relu2'' []],
      g_input = [\<lparr>vi_name = ''X'', elem_type = 1, shape_dim = [DimParam ''N'', DimValue 3]\<rparr>],
      g_output = [], g_initializer = [], g_value_info = [value_T]\<rparr>"

text \<open>A grouped 1x1 convolution with a channel multiplier: group 2 over two input channels,
  four output channels, so the weight has shape 4 x 1 x 1 x 1.\<close>

definition multiplier_weight :: tensor where
  "multiplier_weight = \<lparr>t_name = ''W'', data_type = 1, dims = [4, 1, 1, 1],
     float_data = [3, 5, 7, 9], int64_data = [], raw_data = []\<rparr>"

definition multiplier_graph :: graph where
  "multiplier_graph =
     \<lparr>g_node = [make_node ''Constant'' [] [''W''] ''W'' [attr_tensor ''value'' multiplier_weight],
                depthwise_conv],
      g_input = [\<lparr>vi_name = ''X'', elem_type = 1,
                   shape_dim = [DimValue 1, DimValue 2, DimValue 4, DimValue 4]\<rparr>],
      g_output = [\<lparr>vi_name = ''Y'', elem_type = 1,
                   shape_dim = [DimValue 1, DimValue 4, DimValue 4, DimValue 4]\<rparr>],
      g_initializer = [],
      g_value_info = [\<lparr>vi_name = ''W'', elem_type = 1,
                        shape_dim = [DimValue 4, DimValue 1, DimValue 1, DimValue 1]\<rparr>]\<rparr>"

text \<open>The BatchNormalization node that takes the place of \<open>depthwise_conv\<close>.\<close>

definition batchnorm_of_depthwise :: node where
  "batchnorm_of_depthwise =
     make_node ''BatchNormalization'' [''X'', ''W'', ''dw_bias'', ''dw_mean'', ''dw_var'']
       [''Y''] ''dw''
       [attr_float ''epsilon'' epsilon_f32, attr_float ''momentum'' momentum_f32]"

text \<open>The dilated convolution above, its weight without a ValueInfo.\<close>

definition dilated_conv_no_info_graph :: graph where
  "dilated_conv_no_info_graph =
     \<lparr>g_node = [make_node ''Constant'' [] [''W''] ''W'' [attr_tensor ''value'' dilated_weight],
                dilated_conv],
      g_input = [], g_output = [], g_initializer = [], g_value_info = []\<rparr>"

section \<open>Verified properties\<close>

lemmas example_defs =
  input_X9_def relu_of_a_def split_graph_def slice_node_def input_X23_def
  shape_of_input_graph_def value_T_def shape_unknown_dim_graph_def conflict_conv_def
  conflict_conv_graph_def depthwise_weight_def depthwise_conv_def depthwise_graph_def
  shape_constant_def value_S_def reshape_node_def gemm_node_def relu_of_R_def
  reshape_two_consumers_graph_def value_Y_def squeeze_graph_def dilated_weight_def
  dilated_conv_def dilated_conv_graph_def expanded_weight_def expanded_conv_graph_def
  shape_of_input_info_graph_def shape_two_readers_graph_def multiplier_weight_def
  multiplier_graph_def batchnorm_of_depthwise_def dilated_conv_no_info_graph_def

lemmas helper_defs =
  make_node_def attr_int_def attr_ints_def attr_float_def attr_tensor_def empty_tensor_def
  py_get_def py_index_def py_remove_def find_node_by_output_name_def find_value_by_name_def
  find_input_by_name_def find_output_by_name_def find_size_shape_from_value_def
  list_to_constant_def resolve_value_or_input_def resolve_value_or_output_def
  val_info_used_def remove_collected_def in_int64_def

subsection \<open>Lookups\<close>

lemma find_first_Some:
  "find_first P xs = Some j \<Longrightarrow> j < length xs \<and> P (xs ! j) \<and> (\<forall>k<j. \<not> P (xs ! k))"
proof (induction xs arbitrary: j)
  case Nil
  then show ?case by simp
next
  case (Cons x xs)
  show ?case
  proof (cases "P x")
    case True
    with Cons.prems show ?thesis by simp
  next
    case False
    with Cons.prems obtain j' where j': "find_first P xs = Some j'" "j = Suc j'"
      by auto
    from Cons.IH[OF j'(1)] False j'(2) show ?thesis
      by (auto simp: nth_Cons split: nat.splits)
  qed
qed

lemma find_first_None: "find_first P xs = None \<longleftrightarrow> (\<forall>x\<in>set xs. \<not> P x)"
  by (induction xs) auto

subsection \<open>The scan\<close>

text \<open>A scan over \<open>n\<close> positions applies the loop body at each position \<open>p < n\<close> to the
  state that the positions before \<open>p\<close> have left, and goes on from its result. The theorems
  below about a loop body at a position hold for any state, so also for that one.\<close>

lemma scan_reaches_from:
  "p < n \<Longrightarrow> scan body n i s =
     (case scan body p i s of
        Inl e \<Rightarrow> Inl e
      | Inr sp \<Rightarrow>
          (case body (i + p) sp of
             Inl e \<Rightarrow> Inl e
           | Inr sp' \<Rightarrow> scan body (n - Suc p) (Suc (i + p)) sp'))"
proof (induction p arbitrary: n i s)
  case 0
  then obtain m where "n = Suc m" by (cases n) auto
  then show ?case by (simp split: sum.splits)
next
  case (Suc p)
  then obtain m where n: "n = Suc m" "p < m" by (cases n) auto
  show ?case
  proof (cases "body i s")
    case (Inl e)
    then show ?thesis by (simp add: n)
  next
    case (Inr s')
    with Suc.IH[OF n(2), of "Suc i" s'] show ?thesis by (simp add: n split: sum.splits)
  qed
qed

lemma scan_reaches:
  "p < n \<Longrightarrow> scan body n 0 s =
     (case scan body p 0 s of
        Inl e \<Rightarrow> Inl e
      | Inr sp \<Rightarrow>
          (case body p sp of
             Inl e \<Rightarrow> Inl e
           | Inr sp' \<Rightarrow> scan body (n - Suc p) (Suc p) sp'))"
  using scan_reaches_from[of p n body 0 s] by (simp split: sum.splits)

subsection \<open>The removal loop\<close>

lemma remove_nodes_succeeds:
  "mset xs \<subseteq># mset (g_node g) \<Longrightarrow> \<exists>g'. remove_nodes xs g = Inr g'"
proof (induction xs arbitrary: g)
  case Nil
  then show ?case by simp
next
  case (Cons x xs)
  from Cons.prems have x: "x \<in> set (g_node g)" and
    rest: "mset xs \<subseteq># mset (remove1 x (g_node g))"
    by (auto simp: insert_subset_eq_iff)
  from rest have "mset xs \<subseteq># mset (g_node (g\<lparr>g_node := remove1 x (g_node g)\<rparr>))" by simp
  from Cons.IH[OF this] x show ?case by (simp add: py_remove_def)
qed

lemma mset_nths_subseteq:
  assumes "distinct idxs" and "\<forall>i\<in>set idxs. i < length ns"
  shows "mset (map (\<lambda>i. ns ! i) idxs) \<subseteq># mset ns"
proof -
  have "set idxs \<subseteq> set [0..<length ns]" using assms(2) by auto
  then have "mset_set (set idxs) \<subseteq># mset_set (set [0..<length ns])"
    by (intro subset_imp_msubset_mset_set) simp_all
  with assms(1) have "mset idxs \<subseteq># mset [0..<length ns]"
    by (simp add: mset_set_set)
  then have "image_mset (\<lambda>i. ns ! i) (mset idxs) \<subseteq># image_mset (\<lambda>i. ns ! i) (mset [0..<length ns])"
    by (rule image_mset_subseteq_mono)
  moreover have "image_mset (\<lambda>i. ns ! i) (mset [0..<length ns]) = mset ns"
    by (metis map_nth mset_map)
  ultimately show ?thesis by simp
qed

lemma remove_collected_succeeds:
  "distinct idxs \<Longrightarrow> \<forall>i\<in>set idxs. i < length (g_node g)
     \<Longrightarrow> \<exists>g'. remove_collected idxs g = Inr g'"
  unfolding remove_collected_def
  by (rule remove_nodes_succeeds) (rule mset_nths_subseteq)

subsection \<open>The loop over a growing node list\<close>

text \<open>A body that returns the state unchanged on every node that is not of its operator
  type \<open>T\<close>, that never shortens the node list and never makes a node of type \<open>T\<close> out of
  another one or appends one, ends in the same state whether the loop stops at the nodes
  present at the start or goes on through the appended ones. With enough fuel the growing
  loop returns, and returns what \<open>scan\<close> returns.\<close>

lemma scan_growing_skips_tail:
  assumes skip: "\<And>i s. op_type (g_node (fst s) ! i) \<noteq> T \<Longrightarrow> body i s = Inr s"
    and "\<forall>p. i \<le> p \<and> p < length (g_node (fst s)) \<longrightarrow> op_type (g_node (fst s) ! p) \<noteq> T"
    and "length (g_node (fst s)) - i < fuel"
  shows "scan_growing body fuel i s = Some (Inr s)"
  using assms(2,3)
proof (induction fuel arbitrary: i)
  case 0
  then show ?case by simp
next
  case (Suc fuel)
  show ?case
  proof (cases "i < length (g_node (fst s))")
    case True
    with Suc.prems(1) have "body i s = Inr s" by (intro skip) simp
    moreover have "scan_growing body fuel (Suc i) s = Some (Inr s)"
      using Suc.prems True by (intro Suc.IH) auto
    ultimately show ?thesis using True by simp
  next
    case False
    then show ?thesis by simp
  qed
qed

lemma scan_growing_scan:
  assumes skip: "\<And>i s. op_type (g_node (fst s) ! i) \<noteq> T \<Longrightarrow> body i s = Inr s"
    and grow: "\<And>i s s'. body i s = Inr s' \<Longrightarrow> i < length (g_node (fst s)) \<Longrightarrow>
        length (g_node (fst s)) \<le> length (g_node (fst s'))
        \<and> (\<forall>p<length (g_node (fst s')). op_type (g_node (fst s') ! p) = T
               \<longrightarrow> p < length (g_node (fst s)) \<and> op_type (g_node (fst s) ! p) = T)"
    and "i + k = n0" and "n0 \<le> length (g_node (fst s))"
    and "\<forall>p. n0 \<le> p \<and> p < length (g_node (fst s)) \<longrightarrow> op_type (g_node (fst s) ! p) \<noteq> T"
  shows "\<exists>fuel0. \<forall>fuel\<ge>fuel0. scan_growing body fuel i s = Some (scan body k i s)"
  using assms(3-5)
proof (induction k arbitrary: i s)
  case 0
  then have "\<forall>p. i \<le> p \<and> p < length (g_node (fst s)) \<longrightarrow> op_type (g_node (fst s) ! p) \<noteq> T"
    by simp
  then have "\<forall>fuel\<ge>Suc (length (g_node (fst s)) - i). scan_growing body fuel i s = Some (scan body 0 i s)"
    using scan_growing_skips_tail[of T body i s, OF skip] by simp
  then show ?case by blast
next
  case (Suc k)
  then have i: "i < length (g_node (fst s))" by simp
  show ?case
  proof (cases "body i s")
    case (Inl e)
    then have "\<forall>fuel\<ge>Suc 0. scan_growing body fuel i s = Some (scan body (Suc k) i s)"
      using i by (auto simp: Suc_le_eq gr0_conv_Suc)
    then show ?thesis by blast
  next
    case (Inr s')
    from grow[OF Inr i] have len: "length (g_node (fst s)) \<le> length (g_node (fst s'))"
      and old: "\<forall>p<length (g_node (fst s')). op_type (g_node (fst s') ! p) = T
               \<longrightarrow> p < length (g_node (fst s)) \<and> op_type (g_node (fst s) ! p) = T"
      by simp_all
    have tail: "\<forall>p. n0 \<le> p \<and> p < length (g_node (fst s')) \<longrightarrow> op_type (g_node (fst s') ! p) \<noteq> T"
      using old Suc.prems(3) by blast
    from Suc.prems(1,2) len have "Suc i + k = n0" "n0 \<le> length (g_node (fst s'))" by simp_all
    from Suc.IH[OF this tail] obtain fuel0 where
      f: "\<forall>fuel\<ge>fuel0. scan_growing body fuel (Suc i) s' = Some (scan body k (Suc i) s')"
      by blast
    have "\<forall>fuel\<ge>Suc fuel0. scan_growing body fuel i s = Some (scan body (Suc k) i s)"
    proof (intro allI impI)
      fix fuel assume "Suc fuel0 \<le> fuel"
      then obtain fuel' where "fuel = Suc fuel'" "fuel0 \<le> fuel'" by (cases fuel) auto
      with f Inr i show "scan_growing body fuel i s = Some (scan body (Suc k) i s)" by simp
    qed
    then show ?thesis by blast
  qed
qed

lemma scan_growing_eq_scan:
  assumes skip: "\<And>i s. op_type (g_node (fst s) ! i) \<noteq> T \<Longrightarrow> body i s = Inr s"
    and grow: "\<And>i s s'. body i s = Inr s' \<Longrightarrow> i < length (g_node (fst s)) \<Longrightarrow>
        length (g_node (fst s)) \<le> length (g_node (fst s'))
        \<and> (\<forall>p<length (g_node (fst s')). op_type (g_node (fst s') ! p) = T
               \<longrightarrow> p < length (g_node (fst s)) \<and> op_type (g_node (fst s) ! p) = T)"
  shows "\<exists>fuel0. \<forall>fuel\<ge>fuel0.
           scan_growing body fuel 0 s = Some (scan body (length (g_node (fst s))) 0 s)"
  by (rule scan_growing_scan[of T body, OF skip grow]) auto

text \<open>Each loop body is of that kind.\<close>

lemma shape_body_grow:
  assumes "replace_shape_with_constant_body i s = Inr s'" and "i < length (g_node (fst s))"
  shows "length (g_node (fst s)) \<le> length (g_node (fst s'))
        \<and> (\<forall>p<length (g_node (fst s')). op_type (g_node (fst s') ! p) = ''Shape''
               \<longrightarrow> p < length (g_node (fst s)) \<and> op_type (g_node (fst s) ! p) = ''Shape'')"
  using assms
  by (auto simp: replace_shape_with_constant_body_def Let_def nth_append list_to_constant_def
      make_node_def py_remove_def split: if_splits option.splits)

lemma explicit_slices_grow:
  "explicit_slices node axis sizes k pos g = Inr g' \<Longrightarrow>
     length (g_node g) \<le> length (g_node g')
     \<and> (\<forall>p<length (g_node g'). op_type (g_node g' ! p) = ''Split''
            \<longrightarrow> p < length (g_node g) \<and> op_type (g_node g ! p) = ''Split'')"
proof (induction sizes arbitrary: k pos g)
  case Nil
  then show ?case by simp
next
  case (Cons a sizes)
  from Cons.prems obtain nm where nm: "py_get (n_output node) k = Some nm"
    by (auto simp: Let_def split: option.splits)
  let ?g1 = "g\<lparr>g_node := g_node g @
               [make_node ''Slice'' [n_input node ! 0] [nm] nm
                  [attr_ints ''axes'' [axis], attr_ints ''ends'' [pos + a],
                   attr_ints ''starts'' [pos + a - a]]]\<rparr>"
  from Cons.prems nm have "explicit_slices node axis sizes (Suc k) (pos + a) ?g1 = Inr g'"
    by (simp add: Let_def split: if_splits)
  from Cons.IH[OF this] show ?case
    by (auto simp: nth_append make_node_def split: if_splits)
qed

lemma split_body_grow:
  assumes "replace_split_with_slices_body i s = Inr s'" and "i < length (g_node (fst s))"
  shows "length (g_node (fst s)) \<le> length (g_node (fst s'))
        \<and> (\<forall>p<length (g_node (fst s')). op_type (g_node (fst s') ! p) = ''Split''
               \<longrightarrow> p < length (g_node (fst s)) \<and> op_type (g_node (fst s) ! p) = ''Split'')"
proof (cases "fst s' = fst s")
  case True
  then show ?thesis by simp
next
  case False
  with assms(1) obtain node axis sizes where
    "explicit_slices node axis sizes 0 0 (fst s) = Inr (fst s')"
    by (auto simp: replace_split_with_slices_body_def Let_def is_not_fresh_list_def
        split: if_splits option.splits sum.splits)
  from explicit_slices_grow[OF this] show ?thesis .
qed

lemma squeeze_body_grow:
  assumes "squeeze_to_reshape_body kind i s = Inr s'" and "i < length (g_node (fst s))"
    and "kind = ''Squeeze'' \<or> kind = ''Unsqueeze''"
  shows "length (g_node (fst s)) \<le> length (g_node (fst s'))
        \<and> (\<forall>p<length (g_node (fst s')). op_type (g_node (fst s') ! p) = kind
               \<longrightarrow> p < length (g_node (fst s)) \<and> op_type (g_node (fst s) ! p) = kind)"
  using assms
  by (auto simp: squeeze_to_reshape_body_def Let_def nth_append list_to_constant_def
      make_node_def less_Suc_eq split: if_splits option.splits)

lemma reshape_body_grow:
  assumes "replace_Reshape_with_Flatten_body i s = Inr s'" and "i < length (g_node (fst s))"
  shows "length (g_node (fst s)) \<le> length (g_node (fst s'))
        \<and> (\<forall>p<length (g_node (fst s')). op_type (g_node (fst s') ! p) = ''Reshape''
               \<longrightarrow> p < length (g_node (fst s)) \<and> op_type (g_node (fst s) ! p) = ''Reshape'')"
  using assms
  by (auto simp: replace_Reshape_with_Flatten_body_def Let_def nth_list_update
      split: if_splits option.splits)

lemma dilated_body_grow:
  assumes "replace_dilated_conv_body unpack_f i s = Inr s'" and "i < length (g_node (fst s))"
  shows "length (g_node (fst s)) \<le> length (g_node (fst s'))
        \<and> (\<forall>p<length (g_node (fst s')). op_type (g_node (fst s') ! p) = ''Conv''
               \<longrightarrow> p < length (g_node (fst s)) \<and> op_type (g_node (fst s) ! p) = ''Conv'')"
  using assms
  by (auto simp: replace_dilated_conv_body_def Let_def nth_append nth_list_update make_node_def
      less_Suc_eq split: if_splits option.splits)

lemma op_type_update_attribute:
  "op_type (xs[k := (xs ! k)\<lparr>n_attribute := a\<rparr>] ! p) = op_type (xs ! p)"
proof (cases "k < length xs")
  case True
  then show ?thesis by (cases "k = p") simp_all
next
  case False
  then have "xs[k := (xs ! k)\<lparr>n_attribute := a\<rparr>] = xs"
    by (intro list_update_beyond) simp
  then show ?thesis by simp
qed

lemma depthwise_body_grow:
  assumes "replace_depthwise_1x1_with_bn_body i s = Inr s'" and "i < length (g_node (fst s))"
  shows "length (g_node (fst s)) \<le> length (g_node (fst s'))
        \<and> (\<forall>p<length (g_node (fst s')). op_type (g_node (fst s') ! p) = ''Conv''
               \<longrightarrow> p < length (g_node (fst s)) \<and> op_type (g_node (fst s) ! p) = ''Conv'')"
  using assms
  by (auto simp: replace_depthwise_1x1_with_bn_body_def Let_def nth_append nth_list_update
      make_node_def list_to_constant_def squeeze_scale_info_def less_Suc_eq op_type_update_attribute
      split: if_splits option.splits)

lemma shape_scan_growing:
  "\<exists>fuel0. \<forall>fuel\<ge>fuel0.
     scan_growing (replace_shape_with_constant_body) fuel 0 (g, rem)
       = Some (scan (replace_shape_with_constant_body) (length (g_node g)) 0 (g, rem))"
proof -
  have skip: "op_type (g_node (fst s) ! i) \<noteq> ''Shape'' \<Longrightarrow> (replace_shape_with_constant_body) i s = Inr s" for i s
    by (simp add: replace_shape_with_constant_body_def)
  have "\<exists>fuel0. \<forall>fuel\<ge>fuel0.
     scan_growing (replace_shape_with_constant_body) fuel 0 (g, rem)
       = Some (scan (replace_shape_with_constant_body) (length (g_node (fst (g, rem)))) 0 (g, rem))"
    using skip shape_body_grow by (rule scan_growing_eq_scan)
  then show ?thesis by simp
qed

lemma split_scan_growing:
  "\<exists>fuel0. \<forall>fuel\<ge>fuel0.
     scan_growing (replace_split_with_slices_body) fuel 0 (g, rem)
       = Some (scan (replace_split_with_slices_body) (length (g_node g)) 0 (g, rem))"
proof -
  have skip: "op_type (g_node (fst s) ! i) \<noteq> ''Split'' \<Longrightarrow> (replace_split_with_slices_body) i s = Inr s" for i s
    by (simp add: replace_split_with_slices_body_def)
  have "\<exists>fuel0. \<forall>fuel\<ge>fuel0.
     scan_growing (replace_split_with_slices_body) fuel 0 (g, rem)
       = Some (scan (replace_split_with_slices_body) (length (g_node (fst (g, rem)))) 0 (g, rem))"
    using skip split_body_grow by (rule scan_growing_eq_scan)
  then show ?thesis by simp
qed

lemma squeeze_scan_growing:
  assumes "kind = ''Squeeze'' \<or> kind = ''Unsqueeze''"
  shows "\<exists>fuel0. \<forall>fuel\<ge>fuel0.
     scan_growing (squeeze_to_reshape_body kind) fuel 0 (g, rem)
       = Some (scan (squeeze_to_reshape_body kind) (length (g_node g)) 0 (g, rem))"
proof -
  have skip: "op_type (g_node (fst s) ! i) \<noteq> kind \<Longrightarrow> (squeeze_to_reshape_body kind) i s = Inr s" for i s
    by (simp add: squeeze_to_reshape_body_def)
  have "\<exists>fuel0. \<forall>fuel\<ge>fuel0.
     scan_growing (squeeze_to_reshape_body kind) fuel 0 (g, rem)
       = Some (scan (squeeze_to_reshape_body kind) (length (g_node (fst (g, rem)))) 0 (g, rem))"
    using skip squeeze_body_grow[OF _ _ assms] by (rule scan_growing_eq_scan)
  then show ?thesis by simp
qed

lemma reshape_scan_growing:
  "\<exists>fuel0. \<forall>fuel\<ge>fuel0.
     scan_growing (replace_Reshape_with_Flatten_body) fuel 0 (g, rem)
       = Some (scan (replace_Reshape_with_Flatten_body) (length (g_node g)) 0 (g, rem))"
proof -
  have skip: "op_type (g_node (fst s) ! i) \<noteq> ''Reshape'' \<Longrightarrow> (replace_Reshape_with_Flatten_body) i s = Inr s" for i s
    by (simp add: replace_Reshape_with_Flatten_body_def)
  have "\<exists>fuel0. \<forall>fuel\<ge>fuel0.
     scan_growing (replace_Reshape_with_Flatten_body) fuel 0 (g, rem)
       = Some (scan (replace_Reshape_with_Flatten_body) (length (g_node (fst (g, rem)))) 0 (g, rem))"
    using skip reshape_body_grow by (rule scan_growing_eq_scan)
  then show ?thesis by simp
qed

lemma dilated_scan_growing:
  "\<exists>fuel0. \<forall>fuel\<ge>fuel0.
     scan_growing (replace_dilated_conv_body unpack_f) fuel 0 (g, rem, warnings)
       = Some (scan (replace_dilated_conv_body unpack_f) (length (g_node g)) 0 (g, rem, warnings))"
proof -
  have skip: "op_type (g_node (fst s) ! i) \<noteq> ''Conv'' \<Longrightarrow> (replace_dilated_conv_body unpack_f) i s = Inr s" for i s
    by (simp add: replace_dilated_conv_body_def)
  have "\<exists>fuel0. \<forall>fuel\<ge>fuel0.
     scan_growing (replace_dilated_conv_body unpack_f) fuel 0 (g, rem, warnings)
       = Some (scan (replace_dilated_conv_body unpack_f) (length (g_node (fst (g, rem, warnings)))) 0 (g, rem, warnings))"
    using skip dilated_body_grow by (rule scan_growing_eq_scan)
  then show ?thesis by simp
qed

lemma depthwise_scan_growing:
  "\<exists>fuel0. \<forall>fuel\<ge>fuel0.
     scan_growing (replace_depthwise_1x1_with_bn_body) fuel 0 (g, rem)
       = Some (scan (replace_depthwise_1x1_with_bn_body) (length (g_node g)) 0 (g, rem))"
proof -
  have skip: "op_type (g_node (fst s) ! i) \<noteq> ''Conv'' \<Longrightarrow> (replace_depthwise_1x1_with_bn_body) i s = Inr s" for i s
    by (simp add: replace_depthwise_1x1_with_bn_body_def)
  have "\<exists>fuel0. \<forall>fuel\<ge>fuel0.
     scan_growing (replace_depthwise_1x1_with_bn_body) fuel 0 (g, rem)
       = Some (scan (replace_depthwise_1x1_with_bn_body) (length (g_node (fst (g, rem)))) 0 (g, rem))"
    using skip depthwise_body_grow by (rule scan_growing_eq_scan)
  then show ?thesis by simp
qed

subsection \<open>Split to Slice\<close>

text \<open>
  C2. The claim: a Split node without a per-output size attribute is replaced by one
  Slice per output, with start \<open>i * width\<close> and end \<open>(i + 1) * width\<close> for
  \<open>width = total_length div n_outputs\<close>; for length 9 and 3 outputs the slices are
  [0,3), [3,6), [6,9). The code does not do this: the test \<^verbatim>\<open>split is not []\<close> always
  holds, so the branch for explicit sizes runs and reads \<^verbatim>\<open>node.attribute[1]\<close>. On a
  Split of 9 entries into 3 outputs whose only attribute is the axis the pass raises
  IndexError and leaves the graph as it was. The branch for the even split, which is never
  taken, would have appended the three slices of the claim.
\<close>

theorem split_without_sizes_raises:
  "replace_split_with_slices topological_sort (split_graph [attr_int ''axis'' 0])
     = Inl (IndexError, split_graph [attr_int ''axis'' 0])
   \<and> g_node (even_slices ''X'' 0 (9 div 3) [''a'', ''b'', ''c''] 0
               (split_graph [attr_int ''axis'' 0]))
     = g_node (split_graph [attr_int ''axis'' 0])
       @ [slice_node ''a'' 0 3, slice_node ''b'' 3 6, slice_node ''c'' 6 9]"
  by (simp add: replace_split_with_slices_def replace_split_with_slices_body_def
        is_not_fresh_list_def example_defs helper_defs)

text \<open>
  C3. The claim: in every pass the nodes that replace a removed node carry exactly the
  removed node's output names, so that no consumer has to be rewritten. The Split pass
  breaks it: it takes the number of slices from \<^verbatim>\<open>node.attribute[1].ints\<close>, whatever that
  attribute is. On a Split whose attributes are stored as split = [3, 3, 3], axis = 0
  the second attribute is the axis, whose \<^verbatim>\<open>ints\<close> is empty: no Slice is emitted, the
  Split is removed, and the Relu that reads output a is left without a producer.
\<close>

theorem split_sizes_first_loses_outputs:
  "replace_split_with_slices topological_sort
     (split_graph [attr_ints ''split'' [3, 3, 3], attr_int ''axis'' 0])
     = Inr (topological_sort
         \<lparr>g_node = [relu_of_a], g_input = [input_X9], g_output = [], g_initializer = [],
          g_value_info = []\<rparr>)"
  by (simp add: replace_split_with_slices_def replace_split_with_slices_body_def
        is_not_fresh_list_def example_defs helper_defs)

subsection \<open>Shape constant folding\<close>

lemma val_info_used_append_constant:
  "val_info_used (g\<lparr>g_node := g_node g @ [list_to_constant nm sh vs]\<rparr>) x = val_info_used g x"
  by (simp add: val_info_used_def list_to_constant_def make_node_def)

lemma shape_body_skip:
  assumes "op_type (g_node g ! i) = ''Shape''" "n_input (g_node g ! i) = x # xs"
    and "resolve_value_or_input g x = None \<or> (\<exists>v. resolve_value_or_input g x = Some v \<and> shape_dim v = [])"
  shows "replace_shape_with_constant_body i (g, rem) = Inr (g, rem)"
  using assms by (auto simp: replace_shape_with_constant_body_def py_get_def)

lemma shape_body_fold:
  assumes "op_type (g_node g ! i) = ''Shape''" "n_input (g_node g ! i) = x # xs"
    and "n_output (g_node g ! i) = out # outs"
    and "resolve_value_or_input g x = Some v" "shape_dim v \<noteq> []"
    and "v \<in> set (g_value_info g) \<or> val_info_used g (vi_name v) \<noteq> 1"
  shows "replace_shape_with_constant_body i (g, rem) =
     Inr (g\<lparr>g_node := g_node g @ [list_to_constant out [length (shape_dim v)] (Ints (map dim_value (shape_dim v)))],
            g_value_info := (if val_info_used g (vi_name v) = 1 then remove1 v (g_value_info g) else g_value_info g)\<rparr>, rem @ [i])"
  using assms
  by (auto simp: replace_shape_with_constant_body_def py_get_def Let_def val_info_used_append_constant py_remove_def)

lemma remove1_first_at:
  "j < length l \<Longrightarrow> \<forall>k<j. l ! k \<noteq> l ! j \<Longrightarrow> remove1 (l ! j) l = take j l @ drop (Suc j) l"
proof (induction l arbitrary: j)
  case Nil
  then show ?case by simp
next
  case (Cons a l)
  show ?case
  proof (cases j)
    case 0
    then show ?thesis by simp
  next
    case (Suc j')
    with Cons.prems have "a \<noteq> l ! j'" by (metis nth_Cons_0 nth_Cons_Suc zero_less_Suc)
    moreover from Cons.prems Suc have "\<forall>k<j'. l ! k \<noteq> l ! j'" by fastforce
    moreover from Cons.prems Suc have "j' < length l" by simp
    ultimately show ?thesis using Cons.IH[of j'] Suc by simp
  qed
qed

text \<open>
  C10. There is a valid graph on which \<^verbatim>\<open>replace_shape_with_constant\<close> raises instead of
  folding: the operand X of the Shape node is a graph input of known shape 2 x 3, it has no
  entry among the intermediate values, and exactly one node (the Shape node) reads it.
  The pass appends the Constant, then tries to remove the input's ValueInfo from the list
  of intermediate values, where it is not, and raises; the graph keeps the appended
  Constant and the Shape node.
\<close>

theorem shape_of_graph_input_raises:
  "find_value_by_name shape_of_input_graph ''X'' = None
   \<and> resolve_value_or_input shape_of_input_graph ''X'' = Some input_X23
   \<and> val_info_used shape_of_input_graph ''X'' = 1
   \<and> replace_shape_with_constant topological_sort shape_of_input_graph
       = Inl (ValueError,
              shape_of_input_graph\<lparr>g_node := g_node shape_of_input_graph
                 @ [list_to_constant ''s'' [2] (Ints [2, 3])]\<rparr>)"
  by (simp add: replace_shape_with_constant_def replace_shape_with_constant_body_def
        example_defs helper_defs)




text \<open>
  C7. The claim fails on the graph below. The operand X of the Shape node is a graph
  input, and the Shape node is the only node that has X among its inputs, so the count is
  one. Yet nothing is deleted: the ValueInfo of X is in the input list,
  \<^verbatim>\<open>replace_shape_with_constant\<close> asks the list of intermediate values to remove it, and
  raises. The intermediate values are what they were, and the Shape node is still in the
  graph, beside the Constant that was appended.
\<close>

theorem shape_fold_single_reader_of_input_keeps_info:
  "filter (\<lambda>n. ''X'' \<in> set (n_input n)) (g_node shape_of_input_info_graph)
     = [make_node ''Shape'' [''X''] [''s''] ''shape'' []]
   \<and> g_input shape_of_input_info_graph = [input_X23]
   \<and> g_value_info shape_of_input_info_graph
       = [\<lparr>vi_name = ''s'', elem_type = 7, shape_dim = [DimValue 2]\<rparr>]
   \<and> replace_shape_with_constant (\<lambda>g. g) shape_of_input_info_graph
       = Inl (ValueError,
              \<lparr>g_node = [make_node ''Shape'' [''X''] [''s''] ''shape'' [],
                         make_node ''Relu'' [''s''] [''r''] ''relu'' [],
                         list_to_constant ''s'' [2] (Ints [2, 3])],
               g_input = [input_X23], g_output = [], g_initializer = [],
               g_value_info = [\<lparr>vi_name = ''s'', elem_type = 7, shape_dim = [DimValue 2]\<rparr>]\<rparr>)"
  by (simp add: replace_shape_with_constant_def replace_shape_with_constant_body_def
        example_defs helper_defs)

text \<open>The count of the pass is the number of positions of the node list whose node has the
  name among its inputs.\<close>

lemma val_info_used_card:
  "val_info_used g x = card {p. p < length (g_node g) \<and> x \<in> set (n_input (g_node g ! p))}"
  by (simp add: val_info_used_def length_filter_conv_card)

text \<open>
  Where the operand is an intermediate value, the cleanup is reference counted. Let the
  node at position \<open>i\<close> be a Shape with an output, whose operand \<open>x\<close> has the entry \<open>j\<close>
  among the intermediate values, with at least one dimension. The nodes that have \<open>x\<close>
  among their inputs are counted on the node list before any removal. If there is one,
  entry \<open>j\<close> is deleted, and no other; otherwise the intermediate values stay as they
  are. So the list changes exactly when the count is one.
\<close>

lemma shape_fold_value_info_refcount:
  assumes "i < length (g_node g)" and "op_type (g_node g ! i) = ''Shape''"
    and "n_input (g_node g ! i) = x # xs" and "n_output (g_node g ! i) = out # outs"
    and "find_value_by_name g x = Some j" and "shape_dim (g_value_info g ! j) \<noteq> []"
  shows "\<exists>g'. replace_shape_with_constant_body i (g, rem) = Inr (g', rem @ [i])
          \<and> g_value_info g' =
              (if card {p. p < length (g_node g) \<and> x \<in> set (n_input (g_node g ! p))} = 1
               then take j (g_value_info g) @ drop (Suc j) (g_value_info g)
               else g_value_info g)
          \<and> (g_value_info g' \<noteq> g_value_info g
               \<longleftrightarrow> card {p. p < length (g_node g) \<and> x \<in> set (n_input (g_node g ! p))} = 1)"
proof -
  let ?vs = "g_value_info g"
  let ?v = "?vs ! j"
  from assms(5) have j: "j < length ?vs" "vi_name ?v = x" "\<forall>k<j. vi_name (?vs ! k) \<noteq> x"
    using find_first_Some[of "\<lambda>v. vi_name v = x" ?vs j]
    by (auto simp: find_value_by_name_def)
  from assms(5) have res: "resolve_value_or_input g x = Some ?v"
    by (simp add: resolve_value_or_input_def)
  from j(2,3) have "\<forall>k<j. ?vs ! k \<noteq> ?vs ! j" by metis
  from remove1_first_at[OF j(1) this]
  have rm: "remove1 ?v ?vs = take j ?vs @ drop (Suc j) ?vs" .
  have "length (take j ?vs @ drop (Suc j) ?vs) \<noteq> length ?vs" using j(1) by simp
  then have ne: "take j ?vs @ drop (Suc j) ?vs \<noteq> ?vs" by metis
  have side: "?v \<in> set ?vs \<or> val_info_used g (vi_name ?v) \<noteq> 1" using j(1) by simp
  from shape_body_fold[OF assms(2) assms(3) assms(4) res assms(6) side, of rem]
  have "replace_shape_with_constant_body i (g, rem) =
     Inr (g\<lparr>g_node := g_node g @ [list_to_constant out [length (shape_dim ?v)]
                                      (Ints (map dim_value (shape_dim ?v)))],
            g_value_info := (if val_info_used g x = 1 then remove1 ?v ?vs else ?vs)\<rparr>,
          rem @ [i])"
    by (simp add: j(2))
  then show ?thesis using ne by (auto simp: rm val_info_used_card)
qed

text \<open>The whole pass on an intermediate value with one reader, whose ValueInfo goes, and
  on one with two readers, whose ValueInfo stays.\<close>

lemma shape_fold_value_info_refcount_examples:
  "replace_shape_with_constant (\<lambda>g. g) shape_unknown_dim_graph
     = Inr (\<lparr>g_node = [make_node ''Relu'' [''X''] [''T''] ''relu'' [],
                       make_node ''Cast'' [''s''] [''y''] ''cast'' [attr_int ''to'' 1],
                       list_to_constant ''s'' [2] (Ints [0, 3])],
             g_input = g_input shape_unknown_dim_graph, g_output = [], g_initializer = [],
             g_value_info = []\<rparr>, True)
   \<and> replace_shape_with_constant (\<lambda>g. g) shape_two_readers_graph
     = Inr (\<lparr>g_node = [make_node ''Relu'' [''X''] [''T''] ''relu'' [],
                       make_node ''Relu'' [''T''] [''y''] ''relu2'' [],
                       list_to_constant ''s'' [2] (Ints [0, 3])],
             g_input = g_input shape_two_readers_graph, g_output = [], g_initializer = [],
             g_value_info = [value_T]\<rparr>, True)"
  by (simp add: replace_shape_with_constant_def replace_shape_with_constant_body_def
        remove_collected_def example_defs helper_defs)

subsection \<open>Dilated convolution\<close>

lemma conv_flags_has_dilations:
  "fst (conv_flags attrs (hd0, hs0, dil0))
     = (hd0 \<or> (\<exists>a\<in>set attrs. a_name a = ''dilations'' \<and> a_ints a \<noteq> [1, 1]))"
  by (induction attrs arbitrary: hd0 hs0 dil0) (auto simp: Let_def)

lemma conv_flags_has_strides:
  "fst (snd (conv_flags attrs (hd0, hs0, dil0)))
     = (hs0 \<or> (\<exists>a\<in>set attrs. a_name a = ''strides'' \<and> a_ints a \<noteq> [1, 1]))"
  by (induction attrs arbitrary: hd0 hs0 dil0) (auto simp: Let_def)



subsection \<open>Depthwise 1x1 convolution\<close>

lemma sum_list_all_zero: "\<forall>p\<in>set xs. p = 0 \<Longrightarrow> sum_list xs = (0::int)"
  by (induction xs) simp_all

text \<open>The two float attributes of the BatchNormalization node are the 32-bit floats
  nearest to \<open>1e-5\<close> and \<open>0.9\<close>: a 24-bit significand, and less than half a unit in the
  last place away.\<close>

lemma float32_attributes_nearest:
  "epsilon_f32 = 10995116 / 2 ^ 40 \<and> (2::int) ^ 23 \<le> 10995116 \<and> (10995116::int) < 2 ^ 24
   \<and> \<bar>epsilon_f32 - 1 / 100000\<bar> < 1 / 2 ^ 41
   \<and> momentum_f32 = 15099494 / 2 ^ 24 \<and> (2::int) ^ 23 \<le> 15099494 \<and> (15099494::int) < 2 ^ 24
   \<and> \<bar>momentum_f32 - 9 / 10\<bar> < 1 / 2 ^ 25"
  by (simp add: epsilon_f32_def momentum_f32_def abs_if)

text \<open>\<^verbatim>\<open>attr_map\<close> is the dict built from the attribute list: a later attribute of the same
  name replaces an earlier one.\<close>

lemma attr_map_last_wins:
  assumes "a_name a = nm" and "\<forall>b\<in>set after. a_name b \<noteq> nm"
  shows "attr_map (before @ [a] @ after) nm = Some a"
proof -
  have "map_of (rev (map (\<lambda>a. (a_name a, a)) after)) nm = None"
    using assms(2) by (auto simp add: map_of_eq_None_iff image_image)
  then show ?thesis using assms(1) by (simp add: attr_map_def map_add_Some_iff)
qed

lemma attr_map_absent:
  "attr_map attrs nm = None \<longleftrightarrow> (\<forall>a\<in>set attrs. a_name a \<noteq> nm)"
  by (simp add: attr_map_def map_of_eq_None_iff image_image) auto

text \<open>
  C9. The claim fails on a Conv with a channel multiplier: \<^verbatim>\<open>replace_depthwise_1x1_with_bn\<close>
  tests the second dimension of the weight and nothing else of its shape. In the graph
  below the Conv has group 2, kernel_shape [1, 1], zero pads and a Constant weight of shape
  [4, 1, 1, 1], two input channels and four output channels. The pass cuts the shape of
  the weight and of its ValueInfo to [4], not to [group], and makes it the scale of a
  BatchNormalization node whose bias, mean and variance have \<open>group = 2\<close> entries.
\<close>

theorem depthwise_multiplier_breaks_batchnorm:
  "op_type (g_node multiplier_graph ! 1) = ''Conv''
   \<and> n_attribute (g_node multiplier_graph ! 1)
       = [attr_int ''group'' 2, attr_ints ''kernel_shape'' [1, 1], attr_ints ''pads'' [0, 0, 0, 0]]
   \<and> find_node_by_output_name multiplier_graph ''W'' = Some 0
   \<and> g_node multiplier_graph ! 0
       = make_node ''Constant'' [] [''W''] ''W'' [attr_tensor ''value'' multiplier_weight]
   \<and> dims multiplier_weight = [4, 1, 1, 1]
   \<and> replace_depthwise_1x1_with_bn (\<lambda>g. g) multiplier_graph
       = Inr (multiplier_graph\<lparr>g_node :=
                 [make_node ''Constant'' [] [''W''] ''W''
                    [attr_tensor ''value'' (multiplier_weight\<lparr>dims := [4]\<rparr>)],
                  list_to_constant ''dw_bias'' [2] (Floats [0, 0]),
                  list_to_constant ''dw_mean'' [2] (Floats [0, 0]),
                  list_to_constant ''dw_var'' [2] (Floats [1, 1]),
                  batchnorm_of_depthwise],
               g_value_info := [\<lparr>vi_name = ''W'', elem_type = 1, shape_dim = [DimValue 4]\<rparr>]\<rparr>)"
  by (simp add: replace_depthwise_1x1_with_bn_def replace_depthwise_1x1_with_bn_body_def
      example_defs helper_defs attr_map_def pop3_def squeeze_scale_info_def
      numeral_2_eq_2 Let_def)

text \<open>
  On a Conv whose weight does have the shape [group, 1, 1, 1] the result is the
  BatchNormalization node of the claim. More generally, let the node at position \<open>i\<close> be
  a Conv with group \<open>> 1\<close>, kernel_shape [1, 1], pads (if the attribute is there) all zero,
  inputs \<open>x\<close>, \<open>w\<close> and at most one more, where \<open>w\<close> is produced by the Constant node at
  position \<open>k\<close> whose tensor has shape [c, 1, d2, d3], and whose ValueInfo, if it has one,
  has at least three dimensions. Then the loop body
  \<^item> cuts the tensor's shape to [c] and drops the last three dimensions of the ValueInfo;
  \<^item> takes the third input as the bias name if the Conv has three inputs, and otherwise
    appends a Constant \<open>name_bias\<close> of \<open>group\<close> zeros;
  \<^item> appends the Constants \<open>name_mean\<close> (\<open>group\<close> zeros) and \<open>name_var\<close> (\<open>group\<close> ones);
  \<^item> appends a BatchNormalization node with inputs [x, w, bias, mean, var], the Conv's
    outputs and name, and the attributes epsilon and momentum;
  \<^item> marks the Conv for removal.
\<close>

lemma depthwise_1x1_becomes_batchnorm:
  assumes "i < length (g_node g)" and "op_type (g_node g ! i) = ''Conv''"
    and "attr_map (n_attribute (g_node g ! i)) ''group'' = Some group_attr"
    and "1 < a_i group_attr"
    and "attr_map (n_attribute (g_node g ! i)) ''kernel_shape'' = Some ks"
    and "a_ints ks = [1, 1]"
    and "\<forall>pads. attr_map (n_attribute (g_node g ! i)) ''pads'' = Some pads
           \<longrightarrow> (\<forall>p\<in>set (a_ints pads). p = 0)"
    and "n_input (g_node g ! i) = x # w # ins"
    and "find_node_by_output_name g w = Some k"
    and "op_type (g_node g ! k) = ''Constant''"
    and "n_attribute (g_node g ! k) = a0 # as"
    and "dims (a_t a0) = [c, 1, d2, d3]"
    and "\<forall>j. find_value_by_name g w = Some j
           \<longrightarrow> 3 \<le> length (shape_dim (g_value_info g ! j))"
  shows "replace_depthwise_1x1_with_bn_body i (g, rem) =
     Inr (g\<lparr>g_node :=
             (g_node g)[k := (g_node g ! k)\<lparr>n_attribute :=
                 a0\<lparr>a_t := (a_t a0)\<lparr>dims := [c]\<rparr>\<rparr> # as\<rparr>]
             @ (if length ins = 1 then []
                else [list_to_constant (n_name (g_node g ! i) @ ''_bias'') [nat (a_i group_attr)]
                        (Floats (replicate (nat (a_i group_attr)) 0))])
             @ [list_to_constant (n_name (g_node g ! i) @ ''_mean'') [nat (a_i group_attr)]
                  (Floats (replicate (nat (a_i group_attr)) 0)),
                list_to_constant (n_name (g_node g ! i) @ ''_var'') [nat (a_i group_attr)]
                  (Floats (replicate (nat (a_i group_attr)) 1)),
                make_node ''BatchNormalization''
                  [x, w,
                   if length ins = 1 then hd ins else n_name (g_node g ! i) @ ''_bias'',
                   n_name (g_node g ! i) @ ''_mean'', n_name (g_node g ! i) @ ''_var'']
                  (n_output (g_node g ! i)) (n_name (g_node g ! i))
                  [attr_float ''epsilon'' epsilon_f32, attr_float ''momentum'' momentum_f32]],
            g_value_info :=
              (case find_value_by_name g w of
                 None \<Rightarrow> g_value_info g
               | Some j \<Rightarrow> (g_value_info g)
                   [j := (g_value_info g ! j)\<lparr>shape_dim :=
                      take (length (shape_dim (g_value_info g ! j)) - 3)
                        (shape_dim (g_value_info g ! j))\<rparr>])\<rparr>,
          rem @ [i])"
proof -
  have pads: "(case attr_map (n_attribute (g_node g ! i)) ''pads'' of None \<Rightarrow> False
               | Some pads \<Rightarrow> sum_list (a_ints pads) \<noteq> 0) = False"
  proof (cases "attr_map (n_attribute (g_node g ! i)) ''pads''")
    case None
    then show ?thesis by simp
  next
    case (Some pads)
    with assms(7) have "\<forall>p\<in>set (a_ints pads). p = 0" by simp
    then have "sum_list (a_ints pads) = 0" by (rule sum_list_all_zero)
    with Some show ?thesis by simp
  qed
  have hdm: "length ins = 1 \<Longrightarrow> (x # w # ins) ! 2 = hd ins"
    by (cases ins) simp_all
  show ?thesis
  proof (cases "find_value_by_name g w")
    case None
    then show ?thesis
      using assms(2-6) assms(8-12) pads hdm
      by (simp add: replace_depthwise_1x1_with_bn_body_def py_get_def pop3_def
          squeeze_scale_info_def find_value_by_name_def Let_def)
  next
    case (Some j)
    with assms(13) have "3 \<le> length (shape_dim (g_value_info g ! j))" by simp
    then show ?thesis
      using Some assms(2-6) assms(8-12) pads hdm
      by (simp add: replace_depthwise_1x1_with_bn_body_def py_get_def pop3_def
          squeeze_scale_info_def find_value_by_name_def Let_def)
  qed
qed

text \<open>The loop body and the whole pass on the depthwise convolution over two channels.\<close>

lemma depthwise_1x1_becomes_batchnorm_example:
  "1 < length (g_node depthwise_graph)
   \<and> op_type (g_node depthwise_graph ! 1) = ''Conv''
   \<and> n_attribute (g_node depthwise_graph ! 1)
       = [attr_int ''group'' 2, attr_ints ''kernel_shape'' [1, 1], attr_ints ''pads'' [0, 0, 0, 0]]
   \<and> attr_map (n_attribute (g_node depthwise_graph ! 1)) ''group'' = Some (attr_int ''group'' 2)
   \<and> attr_map (n_attribute (g_node depthwise_graph ! 1)) ''kernel_shape''
        = Some (attr_ints ''kernel_shape'' [1, 1])
   \<and> attr_map (n_attribute (g_node depthwise_graph ! 1)) ''pads''
        = Some (attr_ints ''pads'' [0, 0, 0, 0])
   \<and> n_input (g_node depthwise_graph ! 1) = [''X'', ''W'']
   \<and> find_node_by_output_name depthwise_graph ''W'' = Some 0
   \<and> op_type (g_node depthwise_graph ! 0) = ''Constant''
   \<and> n_attribute (g_node depthwise_graph ! 0) = [attr_tensor ''value'' depthwise_weight]
   \<and> dims depthwise_weight = [2, 1, 1, 1]
   \<and> find_value_by_name depthwise_graph ''W'' = Some 0
   \<and> length (shape_dim (g_value_info depthwise_graph ! 0)) = 4
   \<and> replace_depthwise_1x1_with_bn_body 1 (depthwise_graph, []) =
       Inr (depthwise_graph\<lparr>g_node :=
               [make_node ''Constant'' [] [''W''] ''W''
                  [attr_tensor ''value'' (depthwise_weight\<lparr>dims := [2]\<rparr>)],
                depthwise_conv,
                list_to_constant ''dw_bias'' [2] (Floats [0, 0]),
                list_to_constant ''dw_mean'' [2] (Floats [0, 0]),
                list_to_constant ''dw_var'' [2] (Floats [1, 1]),
                batchnorm_of_depthwise],
              g_value_info := [\<lparr>vi_name = ''W'', elem_type = 1, shape_dim = [DimValue 2]\<rparr>]\<rparr>,
            [1])
   \<and> replace_depthwise_1x1_with_bn (\<lambda>g. g) depthwise_graph =
       Inr (depthwise_graph\<lparr>g_node :=
               [make_node ''Constant'' [] [''W''] ''W''
                  [attr_tensor ''value'' (depthwise_weight\<lparr>dims := [2]\<rparr>)],
                list_to_constant ''dw_bias'' [2] (Floats [0, 0]),
                list_to_constant ''dw_mean'' [2] (Floats [0, 0]),
                list_to_constant ''dw_var'' [2] (Floats [1, 1]),
                batchnorm_of_depthwise],
              g_value_info := [\<lparr>vi_name = ''W'', elem_type = 1, shape_dim = [DimValue 2]\<rparr>]\<rparr>)"
proof -
  have body: "replace_depthwise_1x1_with_bn_body 1 (depthwise_graph, []) =
       Inr (depthwise_graph\<lparr>g_node :=
               [make_node ''Constant'' [] [''W''] ''W''
                  [attr_tensor ''value'' (depthwise_weight\<lparr>dims := [2]\<rparr>)],
                depthwise_conv,
                list_to_constant ''dw_bias'' [2] (Floats [0, 0]),
                list_to_constant ''dw_mean'' [2] (Floats [0, 0]),
                list_to_constant ''dw_var'' [2] (Floats [1, 1]),
                batchnorm_of_depthwise],
              g_value_info := [\<lparr>vi_name = ''W'', elem_type = 1, shape_dim = [DimValue 2]\<rparr>]\<rparr>,
            [1])"
    using depthwise_1x1_becomes_batchnorm[of 1 depthwise_graph "attr_int ''group'' 2"
      "attr_ints ''kernel_shape'' [1, 1]" "''X''" "''W''" "[]" 0
      "attr_tensor ''value'' depthwise_weight" "[]" 2 1 1 "[]"]
    by (simp add: example_defs helper_defs attr_map_def numeral_2_eq_2)
  have pass: "replace_depthwise_1x1_with_bn (\<lambda>g. g) depthwise_graph =
       Inr (depthwise_graph\<lparr>g_node :=
               [make_node ''Constant'' [] [''W''] ''W''
                  [attr_tensor ''value'' (depthwise_weight\<lparr>dims := [2]\<rparr>)],
                list_to_constant ''dw_bias'' [2] (Floats [0, 0]),
                list_to_constant ''dw_mean'' [2] (Floats [0, 0]),
                list_to_constant ''dw_var'' [2] (Floats [1, 1]),
                batchnorm_of_depthwise],
              g_value_info := [\<lparr>vi_name = ''W'', elem_type = 1, shape_dim = [DimValue 2]\<rparr>]\<rparr>)"
    using body
    by (simp add: replace_depthwise_1x1_with_bn_def replace_depthwise_1x1_with_bn_body_def
        example_defs helper_defs attr_map_def Let_def)
  have hyps: "1 < length (g_node depthwise_graph)"
    "op_type (g_node depthwise_graph ! 1) = ''Conv''"
    "n_attribute (g_node depthwise_graph ! 1)
       = [attr_int ''group'' 2, attr_ints ''kernel_shape'' [1, 1], attr_ints ''pads'' [0, 0, 0, 0]]"
    "attr_map (n_attribute (g_node depthwise_graph ! 1)) ''group'' = Some (attr_int ''group'' 2)"
    "attr_map (n_attribute (g_node depthwise_graph ! 1)) ''kernel_shape''
        = Some (attr_ints ''kernel_shape'' [1, 1])"
    "attr_map (n_attribute (g_node depthwise_graph ! 1)) ''pads''
        = Some (attr_ints ''pads'' [0, 0, 0, 0])"
    "n_input (g_node depthwise_graph ! 1) = [''X'', ''W'']"
    "find_node_by_output_name depthwise_graph ''W'' = Some 0"
    "op_type (g_node depthwise_graph ! 0) = ''Constant''"
    "n_attribute (g_node depthwise_graph ! 0) = [attr_tensor ''value'' depthwise_weight]"
    "dims depthwise_weight = [2, 1, 1, 1]"
    "find_value_by_name depthwise_graph ''W'' = Some 0"
    "length (shape_dim (g_value_info depthwise_graph ! 0)) = 4"
    by (simp_all add: example_defs helper_defs attr_map_def)
  from hyps body pass show ?thesis by (intro conjI)
qed


subsection \<open>Reshape to Flatten\<close>


lemma followed_by_gemm_iff:
  "followed_by_gemm ns (out # outs)
     = Some (\<exists>n\<in>set ns. n_input n \<noteq> [] \<and> hd (n_input n) = out \<and> op_type n = ''Gemm'')"
  by (induction ns) (auto simp: py_get_def hd_conv_nth)



subsection \<open>Squeeze and Unsqueeze to Reshape\<close>

text \<open>During the scan the intermediate values, the graph outputs and the nodes present at
  the start stay as they are; the body only appends nodes.\<close>

lemma resolve_value_or_output_cong:
  "g_value_info g' = g_value_info g \<Longrightarrow> g_output g' = g_output g
     \<Longrightarrow> resolve_value_or_output g' nm = resolve_value_or_output g nm"
  by (simp add: resolve_value_or_output_def find_value_by_name_def find_output_by_name_def
      split: option.splits)

lemma squeeze_body_result:
  assumes "g_value_info g' = g_value_info g" and "g_output g' = g_output g"
    and "take (length (g_node g)) (g_node g') = g_node g" and "i < length (g_node g)"
  shows "squeeze_to_reshape_body kind i (g', rem) =
     (let node = g_node g ! i in
      if op_type node \<noteq> kind then Inr (g', rem)
      else case n_output node of
        [] \<Rightarrow> Inl (IndexError, g')
      | out # outs \<Rightarrow>
          (case resolve_value_or_output g out of
             None \<Rightarrow> Inl (RuntimeError (''Cannot get shape for '' @ kind), g')
           | Some v \<Rightarrow>
               (case n_input node of
                  [] \<Rightarrow> Inl (IndexError, g')
                | x # xs \<Rightarrow>
                    Inr (g'\<lparr>g_node := g_node g' @
                           [list_to_constant (n_name node @ ''_shape'') [length (shape_dim v)]
                              (Ints (map dim_value (shape_dim v))),
                            make_node ''Reshape'' [x, n_name node @ ''_shape'']
                              (n_output node) (n_name node) []]\<rparr>,
                         rem @ [i]))))"
proof -
  have node: "g_node g' ! i = g_node g ! i"
    using assms(3,4) by (metis nth_take)
  show ?thesis
    using resolve_value_or_output_cong[OF assms(1,2)]
    by (simp add: squeeze_to_reshape_body_def node py_get_def Let_def
        split: list.splits option.splits)
qed

lemma squeeze_body_keeps:
  assumes "g_value_info g' = g_value_info (g::graph)" and "g_output g' = g_output g"
    and "take (length (g_node g)) (g_node g') = g_node g" and "i < length (g_node g)"
    and "squeeze_to_reshape_body kind i (g', rem) = Inr (g'', rem'')"
  shows "g_value_info g'' = g_value_info g \<and> g_output g'' = g_output g
         \<and> take (length (g_node g)) (g_node g'') = g_node g
         \<and> (rem'' = rem \<or> rem'' = rem @ [i])"
proof -
  have len: "length (g_node g) \<le> length (g_node g')"
    using assms(3) by (metis length_take min.cobounded1 min.commute)
  show ?thesis
    using assms(5) assms(1,2,3) len
    unfolding squeeze_body_result[OF assms(1-4)]
    by (auto simp: Let_def split: if_splits list.splits option.splits)
qed

lemma squeeze_scan_bad:
  assumes "g_value_info g' = g_value_info (g::graph)" and "g_output g' = g_output g"
    and "take (length (g_node g)) (g_node g') = g_node g"
    and "i + k = length (g_node g)"
    and "i \<le> p" and "p < length (g_node g)" and "op_type (g_node g ! p) = kind"
    and "n_output (g_node g ! p) = out # outs" and "resolve_value_or_output g out = None"
  shows "\<exists>e g''. scan (squeeze_to_reshape_body kind) k i (g', rem) = Inl (e, g'')
           \<and> ((\<forall>q<length (g_node g). op_type (g_node g ! q) = kind
                  \<longrightarrow> n_input (g_node g ! q) \<noteq> [] \<and> n_output (g_node g ! q) \<noteq> [])
                \<longrightarrow> e = RuntimeError (''Cannot get shape for '' @ kind))"
  using assms
proof (induction k arbitrary: i g' rem)
  case 0
  then show ?case by simp
next
  case (Suc k)
  from Suc.prems(4) have i: "i < length (g_node g)" by simp
  note body = squeeze_body_result[OF Suc.prems(1-3) i, of kind rem]
  show ?case
  proof (cases "squeeze_to_reshape_body kind i (g', rem)")
    case (Inl eg)
    obtain e g'' where eg: "eg = (e, g'')" by (cases eg)
    have "(\<forall>q<length (g_node g). op_type (g_node g ! q) = kind
             \<longrightarrow> n_input (g_node g ! q) \<noteq> [] \<and> n_output (g_node g ! q) \<noteq> [])
          \<longrightarrow> e = RuntimeError (''Cannot get shape for '' @ kind)"
      using Inl[unfolded body eg] i
      by (auto simp: Let_def split: if_splits list.splits option.splits)
    with Inl eg show ?thesis by simp
  next
    case (Inr st)
    obtain g'' rem'' where st: "st = (g'', rem'')" by (cases st)
    from squeeze_body_keeps[OF Suc.prems(1-3) i Inr[unfolded st]]
    have keep: "g_value_info g'' = g_value_info g" "g_output g'' = g_output g"
      "take (length (g_node g)) (g_node g'') = g_node g" by simp_all
    have "p \<noteq> i"
    proof
      assume "p = i"
      with Suc.prems(7-9) Inr show False unfolding body by simp
    qed
    with Suc.prems(5) have "Suc i \<le> p" by simp
    moreover from Suc.prems(4) have "Suc i + k = length (g_node g)" by simp
    ultimately show ?thesis
      using Suc.IH[OF keep _ _ Suc.prems(6-9), of "Suc i" rem''] Inr st by simp
  qed
qed

lemma squeeze_scan_good:
  assumes "g_value_info g' = g_value_info (g::graph)" and "g_output g' = g_output g"
    and "take (length (g_node g)) (g_node g') = g_node g"
    and "i + k = length (g_node g)"
    and "distinct rem" and "\<forall>r\<in>set rem. r < i"
    and "\<forall>q<length (g_node g). op_type (g_node g ! q) = kind
           \<longrightarrow> n_input (g_node g ! q) \<noteq> []
               \<and> (\<exists>out outs v. n_output (g_node g ! q) = out # outs
                     \<and> resolve_value_or_output g out = Some v)"
  shows "\<exists>g'' rem''. scan (squeeze_to_reshape_body kind) k i (g', rem) = Inr (g'', rem'')
           \<and> take (length (g_node g)) (g_node g'') = g_node g
           \<and> distinct rem'' \<and> (\<forall>r\<in>set rem''. r < length (g_node g))"
  using assms
proof (induction k arbitrary: i g' rem)
  case 0
  then show ?case by auto
next
  case (Suc k)
  from Suc.prems(4) have i: "i < length (g_node g)" by simp
  note body = squeeze_body_result[OF Suc.prems(1-3) i, of kind rem]
  have "\<exists>st. squeeze_to_reshape_body kind i (g', rem) = Inr st"
    unfolding body using Suc.prems(7) i
    by (auto simp: Let_def split: list.splits option.splits)
  then obtain g'' rem'' where st: "squeeze_to_reshape_body kind i (g', rem) = Inr (g'', rem'')"
    by auto
  from squeeze_body_keeps[OF Suc.prems(1-3) i st]
  have keep: "g_value_info g'' = g_value_info g" "g_output g'' = g_output g"
    "take (length (g_node g)) (g_node g'') = g_node g"
    and rem'': "rem'' = rem \<or> rem'' = rem @ [i]" by simp_all
  from rem'' Suc.prems(5,6) have d: "distinct rem''" and lt: "\<forall>r\<in>set rem''. r < Suc i"
    by (auto simp: less_Suc_eq)
  from Suc.prems(4) have "Suc i + k = length (g_node g)" by simp
  from Suc.IH[OF keep this d lt Suc.prems(7)] st show ?case by simp
qed

text \<open>
  C4. For \<^verbatim>\<open>replace_Squeeze_with_Reshape\<close> (and \<^verbatim>\<open>replace_Unsqueeze_with_Reshape\<close>):
  \<^item> if the graph has a Squeeze (Unsqueeze) node whose first output resolves neither as an
    intermediate value nor as a graph output, the pass raises; when every Squeeze
    (Unsqueeze) node has an input and an output, as the operator requires, the exception
    is the RuntimeError "Cannot get shape for Squeeze" ("... Unsqueeze");
  \<^item> if the first output of every Squeeze (Unsqueeze) node resolves, and every such node
    has an input, the pass returns a graph.
\<close>

theorem squeeze_unresolved_shape_is_fatal:
  assumes "(pass, kind) = (replace_Squeeze_with_Reshape, ''Squeeze'')
           \<or> (pass, kind) = (replace_Unsqueeze_with_Reshape, ''Unsqueeze'')"
  shows "((\<exists>p out outs. p < length (g_node g) \<and> op_type (g_node g ! p) = kind
              \<and> n_output (g_node g ! p) = out # outs
              \<and> resolve_value_or_output g out = None)
          \<longrightarrow> (\<exists>e g'. pass topological_sort g = Inl (e, g')
                 \<and> ((\<forall>q<length (g_node g). op_type (g_node g ! q) = kind
                        \<longrightarrow> n_input (g_node g ! q) \<noteq> [] \<and> n_output (g_node g ! q) \<noteq> [])
                     \<longrightarrow> e = RuntimeError (''Cannot get shape for '' @ kind))))
       \<and> ((\<forall>q<length (g_node g). op_type (g_node g ! q) = kind
              \<longrightarrow> n_input (g_node g ! q) \<noteq> []
                  \<and> (\<exists>out outs v. n_output (g_node g ! q) = out # outs
                        \<and> resolve_value_or_output g out = Some v))
          \<longrightarrow> (\<exists>g'. pass topological_sort g = Inr g'))"
proof -
  from assms have pass: "pass = squeeze_to_reshape kind"
    by (auto simp: replace_Squeeze_with_Reshape_def replace_Unsqueeze_with_Reshape_def)
  have inv: "g_value_info g = g_value_info g" "g_output g = g_output g"
    "take (length (g_node g)) (g_node g) = g_node g" "0 + length (g_node g) = length (g_node g)"
    by simp_all
  have bad: "\<exists>e g'. pass topological_sort g = Inl (e, g')
                 \<and> ((\<forall>q<length (g_node g). op_type (g_node g ! q) = kind
                        \<longrightarrow> n_input (g_node g ! q) \<noteq> [] \<and> n_output (g_node g ! q) \<noteq> [])
                     \<longrightarrow> e = RuntimeError (''Cannot get shape for '' @ kind))"
    if "p < length (g_node g)" "op_type (g_node g ! p) = kind"
      "n_output (g_node g ! p) = out # outs" "resolve_value_or_output g out = None"
    for p out outs
    using squeeze_scan_bad[OF inv _ that, of "[]"]
    by (auto simp: pass squeeze_to_reshape_def)
  have good: "\<exists>g'. pass topological_sort g = Inr g'"
    if "\<forall>q<length (g_node g). op_type (g_node g ! q) = kind
              \<longrightarrow> n_input (g_node g ! q) \<noteq> []
                  \<and> (\<exists>out outs v. n_output (g_node g ! q) = out # outs
                        \<and> resolve_value_or_output g out = Some v)"
  proof -
    from squeeze_scan_good[OF inv _ _ that, of "[]"]
    obtain g1 rem1 where sc: "scan (squeeze_to_reshape_body kind) (length (g_node g)) 0 (g, []) = Inr (g1, rem1)"
      and tk: "take (length (g_node g)) (g_node g1) = g_node g"
      and d: "distinct rem1" and lt: "\<forall>r\<in>set rem1. r < length (g_node g)"
      by auto
    from tk have "length (g_node g) \<le> length (g_node g1)"
      by (metis length_take min.cobounded1 min.commute)
    with lt have "\<forall>r\<in>set rem1. r < length (g_node g1)" by auto
    from remove_collected_succeeds[OF d this] obtain g2 where "remove_collected rem1 g1 = Inr g2"
      by auto
    with sc show ?thesis by (simp add: pass squeeze_to_reshape_def)
  qed
  from bad good show ?thesis by blast
qed

theorem squeeze_unresolved_shape_is_fatal_witness:
  "op_type (g_node (squeeze_graph ''Squeeze'' []) ! 0) = ''Squeeze''
   \<and> n_output (g_node (squeeze_graph ''Squeeze'' []) ! 0) = [''Y'']
   \<and> resolve_value_or_output (squeeze_graph ''Squeeze'' []) ''Y'' = None
   \<and> (\<exists>g'. replace_Squeeze_with_Reshape (\<lambda>g. g) (squeeze_graph ''Squeeze'' [])
         = Inl (RuntimeError ''Cannot get shape for Squeeze'', g'))
   \<and> resolve_value_or_output (squeeze_graph ''Unsqueeze'' [value_Y]) ''Y'' = Some value_Y
   \<and> (\<exists>g'. replace_Unsqueeze_with_Reshape (\<lambda>g. g) (squeeze_graph ''Unsqueeze'' [value_Y])
         = Inr g')"
proof -
  let ?bad = "squeeze_graph ''Squeeze'' []"
  let ?good = "squeeze_graph ''Unsqueeze'' [value_Y]"
  have b: "0 < length (g_node ?bad)" "op_type (g_node ?bad ! 0) = ''Squeeze''"
    "n_output (g_node ?bad ! 0) = [''Y'']" "resolve_value_or_output ?bad ''Y'' = None"
    by (simp_all add: squeeze_graph_def helper_defs)
  have valid: "\<forall>q<length (g_node ?bad). op_type (g_node ?bad ! q) = ''Squeeze''
      \<longrightarrow> n_input (g_node ?bad ! q) \<noteq> [] \<and> n_output (g_node ?bad ! q) \<noteq> []"
    by (simp add: squeeze_graph_def helper_defs less_Suc_eq)
  have fatal: "\<exists>g'. replace_Squeeze_with_Reshape (\<lambda>g. g) ?bad
         = Inl (RuntimeError ''Cannot get shape for Squeeze'', g')"
    using squeeze_unresolved_shape_is_fatal[of replace_Squeeze_with_Reshape "''Squeeze''"
           ?bad "\<lambda>g. g"] b valid
    by (metis append.simps(1,2))
  have r: "resolve_value_or_output ?good ''Y'' = Some value_Y"
    by (simp add: squeeze_graph_def value_Y_def helper_defs)
  have resolved: "\<forall>q<length (g_node ?good). op_type (g_node ?good ! q) = ''Unsqueeze''
      \<longrightarrow> n_input (g_node ?good ! q) \<noteq> []
          \<and> (\<exists>out outs v. n_output (g_node ?good ! q) = out # outs
                \<and> resolve_value_or_output ?good out = Some v)"
    using r by (simp add: squeeze_graph_def make_node_def less_Suc_eq)
  have fine: "\<exists>g'. replace_Unsqueeze_with_Reshape (\<lambda>g. g) ?good = Inr g'"
    using squeeze_unresolved_shape_is_fatal[of replace_Unsqueeze_with_Reshape "''Unsqueeze''"
           ?good "\<lambda>g. g"] resolved
    by blast
  from b fatal r fine show ?thesis by simp
qed

subsection \<open>Dilated convolution: the expanded kernel\<close>

text \<open>When no assignment leaves the new array, the four loops are a fold of list updates
  over the taps; the positions written are distinct, so each holds the value of its tap
  and every other position keeps the zero it started with.\<close>

lemma for_range_Suc: "for_range (Suc n) f s = Option.bind (for_range n f s) (f n)"
  by (simp add: for_range_def)

lemma for_range_Some:
  "(\<And>k s. k < n \<Longrightarrow> f k s = Some (g k s)) \<Longrightarrow> for_range n f s = Some (fold g [0..<n] s)"
proof (induction n)
  case 0
  then show ?case by (simp add: for_range_def)
next
  case (Suc n)
  then show ?case by (simp add: for_range_Suc)
qed

lemma fold_product:
  "fold (\<lambda>x. fold (f x) ys) xs = fold (\<lambda>(x, y). f x y) (List.product xs ys)"
  by (induction xs) (simp_all add: fold_map comp_def)

lemma fold_update_length:
  "length (fold (\<lambda>k l. l[D k := V k]) ks l) = length l"
  by (induction ks arbitrary: l) simp_all

lemma fold_update_miss:
  "p \<notin> D ` set ks \<Longrightarrow> fold (\<lambda>k l. l[D k := V k]) ks l ! p = l ! p"
  by (induction ks arbitrary: l) auto

lemma fold_update_hit:
  assumes "k \<in> set ks" and "inj_on D (set ks)" and "D k < length l"
  shows "fold (\<lambda>k l. l[D k := V k]) ks l ! D k = V k"
  using assms
proof (induction ks arbitrary: l)
  case Nil
  then show ?case by simp
next
  case (Cons a ks)
  have inj: "inj_on D (set ks)" using Cons.prems(2) by (simp add: inj_on_def)
  show ?case
  proof (cases "k \<in> set ks")
    case True
    from Cons.IH[OF True inj, of "l[D a := V a]"] Cons.prems(3) show ?thesis by simp
  next
    case False
    with Cons.prems(1) have ka: "k = a" by simp
    have "D a \<notin> D ` set ks"
    proof
      assume "D a \<in> D ` set ks"
      then obtain b where b: "b \<in> set ks" "D b = D a" by auto
      with Cons.prems(2) have "b = a" by (auto simp: inj_on_def)
      with b(1) False ka show False by simp
    qed
    from fold_update_miss[OF this, of V "l[D a := V a]"] Cons.prems(3) ka
    show ?thesis by simp
  qed
qed

lemma radix_less: "a < m \<Longrightarrow> x < n \<Longrightarrow> a * n + x < m * (n::nat)"
proof -
  assume a: "a < m" and x: "x < n"
  have "a * n + x < a * n + n" using x by simp
  also have "\<dots> = Suc a * n" by simp
  also have "\<dots> \<le> m * n" using a by (intro mult_le_mono1) simp
  finally show ?thesis .
qed

lemma radix_inj:
  assumes "x < n" and "x' < n" and "a * n + x = a' * n + (x'::nat)"
  shows "a = a' \<and> x = x'"
proof -
  have "(a * n + x) div n = a" "(a' * n + x') div n = a'" using assms(1,2) by simp_all
  with assms(3) have "a = a'" by simp
  with assms(3) show ?thesis by simp
qed

lemma tap_less:
  assumes "h < kh" and "0 < (dh::nat)"
  shows "h * dh < 1 + (kh - 1) * dh"
proof -
  from assms(1) have "h \<le> kh - 1" by simp
  then have "h * dh \<le> (kh - 1) * dh" by (rule mult_le_mono1)
  then show ?thesis by linarith
qed

lemma np_index_tap:
  assumes "h < kh" and "0 < dh"
  shows "np_index (1 + (int kh - 1) * int dh) (int h * int dh) = Some (h * dh)"
proof -
  have eq: "1 + (int kh - 1) * int dh = int (1 + (kh - 1) * dh)"
    using assms(1) by (simp add: of_nat_diff)
  have "int h * int dh < int (1 + (kh - 1) * dh)"
    using tap_less[OF assms] by (metis of_nat_less_iff of_nat_mult)
  then show ?thesis unfolding eq by (simp add: np_index_def nat_mult_distrib)
qed

lemma flat_index4:
  "flat_index [n0, n1, n2, n3] [b, c, y, x] = ((b * n1 + c) * n2 + y) * n3 + x"
  by (simp add: flat_index_def)

lemma expand_weight_fold:
  assumes "0 < dh" and "0 < dw"
  shows "expand_weight [co, ci, kh, kw] (int dh) (int dw)
           (int (1 + (kh - 1) * dh)) (int (1 + (kw - 1) * dw)) weight =
     Some (fold (\<lambda>t l. l[(case t of (b, c, h, w) \<Rightarrow>
                         flat_index [co, ci, 1 + (kh - 1) * dh, 1 + (kw - 1) * dw]
                           [b, c, h * dh, w * dw])
                       := (case t of (b, c, h, w) \<Rightarrow>
                         weight ! flat_index [co, ci, kh, kw] [b, c, h, w])])
             (List.product [0..<co] (List.product [0..<ci] (List.product [0..<kh] [0..<kw])))
             (replicate (co * ci * (1 + (kh - 1) * dh) * (1 + (kw - 1) * dw)) 0))"
proof -
  define nh where "nh = 1 + (kh - 1) * dh"
  define nw where "nw = 1 + (kw - 1) * dw"
  define U where "U = (\<lambda>b c h w (l::real list).
     l[flat_index [co, ci, nh, nw] [b, c, h * dh, w * dw]
         := weight ! flat_index [co, ci, kh, kw] [b, c, h, w]])"
  define step where "step = (\<lambda>b c h w (new_weight::real list).
     case np_index (int nh) (int h * int dh) of
       None \<Rightarrow> None
     | Some y \<Rightarrow>
         (case np_index (int nw) (int w * int dw) of
            None \<Rightarrow> None
          | Some x \<Rightarrow>
              Some (copy_tap (Suc 0) weight (flat_index [co, ci, kh, kw] [b, c, h, w])
                      (flat_index [co, ci, nat (int nh), nat (int nw)] [b, c, y, x])
                      new_weight)))"
  have step: "step b c h w l = Some (U b c h w l)" if "h < kh" "w < kw" for b c h w l
  proof -
    have e: "int nh = 1 + (int kh - 1) * int dh" "int nw = 1 + (int kw - 1) * int dw"
      using that by (simp_all add: nh_def nw_def of_nat_diff)
    have n: "nat (1 + (int kh - 1) * int dh) = nh" "nat (1 + (int kw - 1) * int dw) = nw"
      using e by (metis nat_int)+
    show ?thesis
      unfolding step_def e
      using that assms by (simp add: U_def np_index_tap copy_tap_def n)
  qed
  have lw: "for_range kw (step b c h) l = Some (fold (U b c h) [0..<kw] l)"
    if "h < kh" for b c h l
    by (rule for_range_Some) (simp add: step that)
  have lh: "for_range kh (\<lambda>h. for_range kw (step b c h)) l
              = Some (fold (\<lambda>h. fold (U b c h) [0..<kw]) [0..<kh] l)" for b c l
    by (rule for_range_Some) (simp add: lw)
  have lc: "for_range ci (\<lambda>c. for_range kh (\<lambda>h. for_range kw (step b c h))) l
              = Some (fold (\<lambda>c. fold (\<lambda>h. fold (U b c h) [0..<kw]) [0..<kh]) [0..<ci] l)"
    for b l
    by (rule for_range_Some) (simp add: lh)
  have lb: "for_range co (\<lambda>b. for_range ci (\<lambda>c. for_range kh (\<lambda>h. for_range kw (step b c h)))) l
              = Some (fold (\<lambda>b. fold (\<lambda>c. fold (\<lambda>h. fold (U b c h) [0..<kw]) [0..<kh]) [0..<ci])
                        [0..<co] l)" for l
    by (rule for_range_Some) (simp add: lc)
  have model: "expand_weight [co, ci, kh, kw] (int dh) (int dw) (int nh) (int nw) weight
      = for_range co (\<lambda>b. for_range ci (\<lambda>c. for_range kh (\<lambda>h. for_range kw (step b c h))))
          (replicate (co * ci * nh * nw) 0)"
    by (simp add: expand_weight_def step_def Let_def)
  have flat: "fold (\<lambda>b. fold (\<lambda>c. fold (\<lambda>h. fold (U b c h) [0..<kw]) [0..<kh]) [0..<ci]) [0..<co]
      = fold (\<lambda>(b, c, h, w). U b c h w)
          (List.product [0..<co] (List.product [0..<ci] (List.product [0..<kh] [0..<kw])))"
    by (simp add: fold_product)
  have "(\<lambda>(b, c, h, w). U b c h w)
      = (\<lambda>t l. l[(case t of (b, c, h, w) \<Rightarrow>
                         flat_index [co, ci, nh, nw] [b, c, h * dh, w * dw])
                       := (case t of (b, c, h, w) \<Rightarrow>
                         weight ! flat_index [co, ci, kh, kw] [b, c, h, w])])"
    by (auto simp: U_def fun_eq_iff)
  with model lb flat show ?thesis by (simp add: nh_def nw_def)
qed

lemma expand_weight_taps:
  assumes "0 < dh" and "0 < dw" and "0 < kh" and "0 < kw"
  shows "\<exists>new_weight.
     expand_weight [co, ci, kh, kw] (int dh) (int dw)
       (1 + (int kh - 1) * int dh) (1 + (int kw - 1) * int dw) weight = Some new_weight
     \<and> length new_weight = co * ci * (1 + (kh - 1) * dh) * (1 + (kw - 1) * dw)
     \<and> (\<forall>b<co. \<forall>c<ci. \<forall>h<kh. \<forall>w<kw.
           new_weight ! flat_index [co, ci, 1 + (kh - 1) * dh, 1 + (kw - 1) * dw]
                          [b, c, h * dh, w * dw]
             = weight ! flat_index [co, ci, kh, kw] [b, c, h, w])
     \<and> (\<forall>p<length new_weight.
           (\<forall>b<co. \<forall>c<ci. \<forall>h<kh. \<forall>w<kw.
              p \<noteq> flat_index [co, ci, 1 + (kh - 1) * dh, 1 + (kw - 1) * dw]
                    [b, c, h * dh, w * dw])
           \<longrightarrow> new_weight ! p = 0)"
proof -
  note pos = assms(3,4)
  define nh where "nh = 1 + (kh - 1) * dh"
  define nw where "nw = 1 + (kw - 1) * dw"
  define D where "D = (\<lambda>t. case t of (b, c, h, w) \<Rightarrow>
                         flat_index [co, ci, nh, nw] [b, c, h * dh, w * dw])"
  define V where "V = (\<lambda>t. case t of (b, c, h, w) \<Rightarrow>
                         weight ! flat_index [co, ci, kh, kw] [b, c, h, w])"
  define taps where
    "taps = List.product [0..<co] (List.product [0..<ci] (List.product [0..<kh] [0..<kw]))"
  define zeros :: "real list" where "zeros = replicate (co * ci * nh * nw) 0"
  define R where "R = fold (\<lambda>t l. l[D t := V t]) taps zeros"
  have e: "1 + (int kh - 1) * int dh = int nh" "1 + (int kw - 1) * int dw = int nw"
    using pos by (simp_all add: nh_def nw_def of_nat_diff)
  have res: "expand_weight [co, ci, kh, kw] (int dh) (int dw)
       (1 + (int kh - 1) * int dh) (1 + (int kw - 1) * int dw) weight = Some R"
    unfolding e using expand_weight_fold[OF assms(1,2), of co ci kh kw weight]
    by (simp add: R_def D_def V_def taps_def zeros_def nh_def nw_def)
  have mem: "(b, c, h, w) \<in> set taps \<longleftrightarrow> b < co \<and> c < ci \<and> h < kh \<and> w < kw" for b c h w
    by (auto simp: taps_def)
  have bound: "D (b, c, h, w) < length zeros" if "b < co" "c < ci" "h < kh" "w < kw" for b c h w
  proof -
    have 1: "b * ci + c < co * ci" using that(1,2) by (rule radix_less)
    have 2: "h * dh < nh" unfolding nh_def using that(3) assms(1) by (rule tap_less)
    have 3: "(b * ci + c) * nh + h * dh < co * ci * nh" using 1 2 by (rule radix_less)
    have 4: "w * dw < nw" unfolding nw_def using that(4) assms(2) by (rule tap_less)
    have "((b * ci + c) * nh + h * dh) * nw + w * dw < co * ci * nh * nw"
      using 3 4 by (rule radix_less)
    then show ?thesis by (simp add: D_def flat_index4 zeros_def)
  qed
  have inj: "inj_on D (set taps)"
  proof (rule inj_onI)
    fix t t' assume t: "t \<in> set taps" "t' \<in> set taps" and eq: "D t = D t'"
    obtain b c h w where tt: "t = (b, c, h, w)" by (cases t) auto
    obtain b' c' h' w' where tt': "t' = (b', c', h', w')" by (cases t') auto
    from t tt tt' mem have r: "b < co" "c < ci" "h < kh" "w < kw"
      "b' < co" "c' < ci" "h' < kh" "w' < kw" by auto
    have w: "w * dw < nw" "w' * dw < nw"
      unfolding nw_def by (simp_all only: tap_less[OF r(4) assms(2)] tap_less[OF r(8) assms(2)])
    have h: "h * dh < nh" "h' * dh < nh"
      unfolding nh_def by (simp_all only: tap_less[OF r(3) assms(1)] tap_less[OF r(7) assms(1)])
    from eq have "((b * ci + c) * nh + h * dh) * nw + w * dw
                = ((b' * ci + c') * nh + h' * dh) * nw + w' * dw"
      by (simp add: D_def tt tt' flat_index4)
    from radix_inj[OF w this] have 1: "(b * ci + c) * nh + h * dh = (b' * ci + c') * nh + h' * dh"
      and 2: "w * dw = w' * dw" by simp_all
    from radix_inj[OF h 1] have 3: "b * ci + c = b' * ci + c'" and 4: "h * dh = h' * dh"
      by simp_all
    from radix_inj[OF r(2) r(6) 3] have "b = b'" "c = c'" by simp_all
    moreover from 2 4 assms have "w = w'" "h = h'" by simp_all
    ultimately show "t = t'" by (simp add: tt tt')
  qed
  have len: "length R = co * ci * nh * nw"
    by (simp add: R_def fold_update_length zeros_def)
  have hit: "R ! flat_index [co, ci, nh, nw] [b, c, h * dh, w * dw]
             = weight ! flat_index [co, ci, kh, kw] [b, c, h, w]"
    if "b < co" "c < ci" "h < kh" "w < kw" for b c h w
  proof -
    have "(b, c, h, w) \<in> set taps" using that mem by simp
    from fold_update_hit[OF this inj bound[OF that], of V]
    show ?thesis by (simp add: R_def D_def V_def)
  qed
  have miss: "R ! p = 0" if "p < length R"
    "\<forall>b<co. \<forall>c<ci. \<forall>h<kh. \<forall>w<kw. p \<noteq> flat_index [co, ci, nh, nw] [b, c, h * dh, w * dw]"
    for p
  proof -
    have "p \<notin> D ` set taps"
    proof
      assume "p \<in> D ` set taps"
      then obtain t where t: "t \<in> set taps" "p = D t" by auto
      obtain b c h w where tt: "t = (b, c, h, w)" by (cases t) auto
      with t mem that(2) show False by (auto simp: D_def)
    qed
    from fold_update_miss[OF this, of V zeros] that(1) len
    show ?thesis by (simp add: R_def zeros_def)
  qed
  from res len hit miss show ?thesis unfolding nh_def nw_def by blast
qed

lemma set_two_pair: "length xs = 2 \<Longrightarrow> set_two a b xs = ([a, b], True)"
proof -
  assume "length xs = 2"
  then obtain x y where "xs = [x, y]"
    by (cases xs; cases "tl xs") auto
  then show ?thesis by (simp add: set_two_def)
qed

lemma rewrite_conv_attrs_pairs:
  assumes "\<forall>a\<in>set attrs. a_name a = ''kernel_shape'' \<or> a_name a = ''dilations''
             \<longrightarrow> length (a_ints a) = 2"
  shows "rewrite_conv_attrs nh nw attrs =
     (map (\<lambda>a. if a_name a = ''kernel_shape'' then a\<lparr>a_ints := [nh, nw]\<rparr>
                else if a_name a = ''dilations'' then a\<lparr>a_ints := [1, 1]\<rparr>
                else a) attrs, True)"
  using assms by (induction attrs) (auto simp: set_two_pair)

text \<open>
  The expansion itself, where the weight has a ValueInfo. Let the node at position \<open>i\<close> be
  a Conv whose attribute scan gives a dilation [dh, dw] other than [1, 1] and no stride other
  than [1, 1], with \<open>dh, dw \<ge> 1\<close>, whose kernel_shape and dilations attributes have two
  entries, and whose weight \<open>w\<close> is produced by the Constant node at position \<open>k\<close> with a
  tensor of shape [co, ci, kh, kw] (\<open>kh, kw \<ge> 1\<close>) holding \<open>co * ci * kh * kw\<close> values (as
  \<^verbatim>\<open>float_data\<close> or as raw bytes) and with a ValueInfo of at least four dimensions. With
  \<open>new_h = 1 + (kh - 1) * dh\<close> and \<open>new_w = 1 + (kw - 1) * dw\<close>, the loop body
  \<^item> appends a Constant with the outputs and name of node \<open>k\<close> and a tensor of shape
    [co, ci, new_h, new_w] whose entry at (b, c, h * dh, w * dw) is the weight's entry
    at (b, c, h, w), for every tap, and whose every other entry is 0;
  \<^item> sets every kernel_shape attribute of the Conv to [new_h, new_w] and every dilations
    attribute to [1, 1], and dimensions 2 and 3 of the weight's ValueInfo to new_h, new_w;
  \<^item> marks node \<open>k\<close> for removal.
  On the 2 x 2 kernel with rows (1, 2) and (3, 4) and dilation [2, 2] the whole pass yields
  the 3 x 3 kernel with rows (1, 0, 2), (0, 0, 0) and (3, 0, 4), kernel_shape [3, 3] and
  dilations [1, 1].
\<close>

lemma dilated_conv_expands_kernel:
  assumes "i < length (g_node g)" and "op_type (g_node g ! i) = ''Conv''"
    and "conv_flags (n_attribute (g_node g ! i)) (False, False, [])
           = (True, False, [int dh, int dw])"
    and "0 < dh" and "0 < dw"
    and "\<forall>a\<in>set (n_attribute (g_node g ! i)).
           a_name a = ''kernel_shape'' \<or> a_name a = ''dilations'' \<longrightarrow> length (a_ints a) = 2"
    and "n_input (g_node g ! i) = x # w # ins"
    and "find_node_by_output_name g w = Some k"
    and "op_type (g_node g ! k) = ''Constant''"
    and "n_attribute (g_node g ! k) = a0 # as"
    and "dims (a_t a0) = [co, ci, kh, kw]" and "0 < kh" and "0 < kw"
    and "tensor_floats unpack_f (a_t a0) = Some weight"
    and "length weight = co * ci * kh * kw"
    and "find_value_by_name g w = Some j"
    and "4 \<le> length (shape_dim (g_value_info g ! j))"
    and "new_h = 1 + (kh - 1) * dh" and "new_w = 1 + (kw - 1) * dw"
  shows "\<exists>new_weight.
     replace_dilated_conv_body unpack_f i (g, rem, warnings) =
       Inr (g\<lparr>g_node :=
               (g_node g)[i := (g_node g ! i)\<lparr>n_attribute :=
                   map (\<lambda>a. if a_name a = ''kernel_shape''
                              then a\<lparr>a_ints := [int new_h, int new_w]\<rparr>
                              else if a_name a = ''dilations'' then a\<lparr>a_ints := [1, 1]\<rparr>
                              else a)
                       (n_attribute (g_node g ! i))\<rparr>]
               @ [make_node ''Constant'' [] (n_output (g_node g ! k)) (n_name (g_node g ! k))
                    [attr_tensor ''value''
                       \<lparr>t_name = t_name (a_t a0), data_type = data_type (a_t a0),
                        dims = [co, ci, new_h, new_w], float_data = new_weight,
                        int64_data = [], raw_data = []\<rparr>]],
              g_value_info := (g_value_info g)
                [j := (g_value_info g ! j)\<lparr>shape_dim := (shape_dim (g_value_info g ! j))
                        [2 := DimValue (int new_h), 3 := DimValue (int new_w)]\<rparr>]\<rparr>,
            rem @ [k], warnings)
     \<and> length new_weight = co * ci * new_h * new_w
     \<and> (\<forall>b<co. \<forall>c<ci. \<forall>h<kh. \<forall>w<kw.
           new_weight ! flat_index [co, ci, new_h, new_w] [b, c, h * dh, w * dw]
             = weight ! flat_index [co, ci, kh, kw] [b, c, h, w])
     \<and> (\<forall>p<length new_weight.
           (\<forall>b<co. \<forall>c<ci. \<forall>h<kh. \<forall>w<kw.
              p \<noteq> flat_index [co, ci, new_h, new_w] [b, c, h * dh, w * dw])
           \<longrightarrow> new_weight ! p = 0)"
proof -
  from expand_weight_taps[OF assms(4,5,12,13), of co ci weight]
  obtain R where R: "expand_weight [co, ci, kh, kw] (int dh) (int dw)
       (1 + (int kh - 1) * int dh) (1 + (int kw - 1) * int dw) weight = Some R"
    and len: "length R = co * ci * new_h * new_w"
    and hit: "\<forall>b<co. \<forall>c<ci. \<forall>h<kh. \<forall>w<kw.
           R ! flat_index [co, ci, new_h, new_w] [b, c, h * dh, w * dw]
             = weight ! flat_index [co, ci, kh, kw] [b, c, h, w]"
    and miss: "\<forall>p<length R.
           (\<forall>b<co. \<forall>c<ci. \<forall>h<kh. \<forall>w<kw.
              p \<noteq> flat_index [co, ci, new_h, new_w] [b, c, h * dh, w * dw])
           \<longrightarrow> R ! p = 0"
    unfolding assms(18,19) by blast
  have e: "1 + (int kh - 1) * int dh = int new_h" "1 + (int kw - 1) * int dw = int new_w"
    using assms(12,13) by (simp_all add: assms(18,19) of_nat_diff)
  have dims4: "set_spatial_dims (int new_h) (int new_w) (shape_dim (g_value_info g ! j))
      = ((shape_dim (g_value_info g ! j))[2 := DimValue (int new_h), 3 := DimValue (int new_w)], True)"
    using assms(17) by (simp add: set_spatial_dims_def)
  have k: "k < length (g_node g)"
    using assms(8) find_first_Some[of "\<lambda>n. w \<in> set (n_output n)" "g_node g" k]
    by (simp add: find_node_by_output_name_def)
  have body: "replace_dilated_conv_body unpack_f i (g, rem, warnings) =
       Inr (g\<lparr>g_node :=
               (g_node g)[i := (g_node g ! i)\<lparr>n_attribute :=
                   map (\<lambda>a. if a_name a = ''kernel_shape''
                              then a\<lparr>a_ints := [int new_h, int new_w]\<rparr>
                              else if a_name a = ''dilations'' then a\<lparr>a_ints := [1, 1]\<rparr>
                              else a)
                       (n_attribute (g_node g ! i))\<rparr>]
               @ [make_node ''Constant'' [] (n_output (g_node g ! k)) (n_name (g_node g ! k))
                    [attr_tensor ''value''
                       \<lparr>t_name = t_name (a_t a0), data_type = data_type (a_t a0),
                        dims = [co, ci, new_h, new_w], float_data = R,
                        int64_data = [], raw_data = []\<rparr>]],
              g_value_info := (g_value_info g)
                [j := (g_value_info g ! j)\<lparr>shape_dim := (shape_dim (g_value_info g ! j))
                        [2 := DimValue (int new_h), 3 := DimValue (int new_w)]\<rparr>]\<rparr>,
            rem @ [k], warnings)"
    using assms(1-3) assms(7-11) assms(14-16) R k
    by (simp add: replace_dilated_conv_body_def py_get_def Let_def e dims4
        rewrite_conv_attrs_pairs[OF assms(6)] nth_append list_update_append)
  from body len hit miss show ?thesis by blast
qed

lemma dilated_conv_expands_kernel_example:
  "op_type (g_node dilated_conv_graph ! 1) = ''Conv''
   \<and> conv_flags (n_attribute (g_node dilated_conv_graph ! 1)) (False, False, [])
       = (True, False, [2, 2])
   \<and> n_input (g_node dilated_conv_graph ! 1) = [''X'', ''W'']
   \<and> find_node_by_output_name dilated_conv_graph ''W'' = Some 0
   \<and> n_attribute (g_node dilated_conv_graph ! 0) = [attr_tensor ''value'' dilated_weight]
   \<and> dims dilated_weight = [1, 1, 2, 2]
   \<and> tensor_floats (\<lambda>bytes. 0) dilated_weight = Some [1, 2, 3, 4]
   \<and> find_value_by_name dilated_conv_graph ''W'' = Some 0
   \<and> (\<exists>new_weight.
         replace_dilated_conv_body (\<lambda>bytes. 0) 1 (dilated_conv_graph, [], [])
           = Inr (expanded_conv_graph\<lparr>g_node :=
                    [g_node dilated_conv_graph ! 0, g_node expanded_conv_graph ! 0,
                     make_node ''Constant'' [] [''W''] ''W''
                       [attr_tensor ''value'' (expanded_weight\<lparr>float_data := new_weight\<rparr>)]]\<rparr>,
                  [0], [])
         \<and> length new_weight = 9
         \<and> new_weight ! 0 = 1 \<and> new_weight ! 2 = 2 \<and> new_weight ! 6 = 3 \<and> new_weight ! 8 = 4
         \<and> new_weight ! 1 = 0 \<and> new_weight ! 4 = 0)
   \<and> replace_dilated_conv (\<lambda>bytes. 0) dilated_conv_graph = Inr (expanded_conv_graph, [])"
proof -
  let ?g = dilated_conv_graph
  have h: "1 < length (g_node ?g)" "op_type (g_node ?g ! 1) = ''Conv''"
    "conv_flags (n_attribute (g_node ?g ! 1)) (False, False, []) = (True, False, [int 2, int 2])"
    "0 < (2::nat)" "0 < (2::nat)"
    "\<forall>a\<in>set (n_attribute (g_node ?g ! 1)).
           a_name a = ''kernel_shape'' \<or> a_name a = ''dilations'' \<longrightarrow> length (a_ints a) = 2"
    "n_input (g_node ?g ! 1) = ''X'' # ''W'' # []"
    "find_node_by_output_name ?g ''W'' = Some 0"
    "op_type (g_node ?g ! 0) = ''Constant''"
    "n_attribute (g_node ?g ! 0) = attr_tensor ''value'' dilated_weight # []"
    "dims (a_t (attr_tensor ''value'' dilated_weight)) = [1, 1, 2, 2]" "0 < (2::nat)" "0 < (2::nat)"
    "tensor_floats (\<lambda>bytes. 0) (a_t (attr_tensor ''value'' dilated_weight)) = Some [1, 2, 3, 4]"
    "length [1, 2, 3, 4::real] = 1 * 1 * 2 * 2"
    "find_value_by_name ?g ''W'' = Some 0"
    "4 \<le> length (shape_dim (g_value_info ?g ! 0))"
    "(3::nat) = 1 + (2 - 1) * 2" "(3::nat) = 1 + (2 - 1) * 2"
    by (simp_all add: example_defs helper_defs tensor_floats_def)
  from dilated_conv_expands_kernel[OF h, of "[]" "[]"]
  obtain nw where body: "replace_dilated_conv_body (\<lambda>bytes. 0) 1 (?g, [], []) =
       Inr (?g\<lparr>g_node :=
               (g_node ?g)[1 := (g_node ?g ! 1)\<lparr>n_attribute :=
                   map (\<lambda>a. if a_name a = ''kernel_shape''
                              then a\<lparr>a_ints := [int 3, int 3]\<rparr>
                              else if a_name a = ''dilations'' then a\<lparr>a_ints := [1, 1]\<rparr>
                              else a)
                       (n_attribute (g_node ?g ! 1))\<rparr>]
               @ [make_node ''Constant'' [] (n_output (g_node ?g ! 0)) (n_name (g_node ?g ! 0))
                    [attr_tensor ''value''
                       \<lparr>t_name = t_name (a_t (attr_tensor ''value'' dilated_weight)),
                        data_type = data_type (a_t (attr_tensor ''value'' dilated_weight)),
                        dims = [1, 1, 3, 3], float_data = nw,
                        int64_data = [], raw_data = []\<rparr>]],
              g_value_info := (g_value_info ?g)
                [0 := (g_value_info ?g ! 0)\<lparr>shape_dim := (shape_dim (g_value_info ?g ! 0))
                        [2 := DimValue (int 3), 3 := DimValue (int 3)]\<rparr>]\<rparr>,
            [] @ [0], [])"
    and len0: "length nw = 1 * 1 * 3 * 3"
    and hit: "\<forall>b<1. \<forall>c<1. \<forall>h<2. \<forall>w<2.
           nw ! flat_index [1, 1, 3, 3] [b, c, h * 2, w * 2]
             = [1, 2, 3, 4] ! flat_index [1, 1, 2, 2] [b, c, h, w]"
    and miss: "\<forall>p<length nw.
           (\<forall>b<1. \<forall>c<1. \<forall>h<2. \<forall>w<2.
              p \<noteq> flat_index [1, 1, 3, 3] [b, c, h * 2, w * 2])
           \<longrightarrow> nw ! p = 0"
    by blast
  from len0 have len: "length nw = 9" by simp
  from body have body': "replace_dilated_conv_body (\<lambda>bytes. 0) 1 (?g, [], [])
           = Inr (expanded_conv_graph\<lparr>g_node :=
                    [g_node ?g ! 0, g_node expanded_conv_graph ! 0,
                     make_node ''Constant'' [] [''W''] ''W''
                       [attr_tensor ''value'' (expanded_weight\<lparr>float_data := nw\<rparr>)]]\<rparr>,
                  [0], [])"
    by (simp add: example_defs helper_defs)
  have taps: "nw ! 0 = 1" "nw ! 2 = 2" "nw ! 6 = 3" "nw ! 8 = 4"
    using hit[rule_format, of 0 0 0 0] hit[rule_format, of 0 0 0 1]
      hit[rule_format, of 0 0 1 0] hit[rule_format, of 0 0 1 1]
    by (simp_all add: flat_index4 numeral_2_eq_2)
  have n1: "\<forall>b<1. \<forall>c<1. \<forall>h<2. \<forall>w<2. (1::nat) \<noteq> flat_index [1, 1, 3, 3] [b, c, h * 2, w * 2]"
    and n4: "\<forall>b<1. \<forall>c<1. \<forall>h<2. \<forall>w<2. (4::nat) \<noteq> flat_index [1, 1, 3, 3] [b, c, h * 2, w * 2]"
    by (auto simp: flat_index4 less_2_cases_iff)
  have l1: "1 < length nw" and l4: "4 < length nw" using len by simp_all
  have zeros: "nw ! 1 = 0" "nw ! 4 = 0"
    using miss[THEN spec, THEN mp, THEN mp, OF l1 n1] miss[THEN spec, THEN mp, THEN mp, OF l4 n4]
    by simp_all
  have u: "[0..<2] = [0, Suc 0]" by (simp add: numeral_2_eq_2)
  have ew: "expand_weight [Suc 0, Suc 0, 2, 2] 2 2 3 3 [1, 2, 3, 4]
              = Some [1, 0, 2, 0, 0, 0, 3, 0, 4]"
    by (simp add: expand_weight_def for_range_def copy_tap_def np_index_def flat_index_def u
        Let_def numeral_3_eq_3 numeral_2_eq_2)
  have pass: "replace_dilated_conv (\<lambda>bytes. 0) ?g = Inr (expanded_conv_graph, [])"
    by (simp add: replace_dilated_conv_def replace_dilated_conv_body_def example_defs helper_defs
        tensor_floats_def ew set_spatial_dims_def set_two_def Let_def)
  have ex: "\<exists>new_weight.
         replace_dilated_conv_body (\<lambda>bytes. 0) 1 (dilated_conv_graph, [], [])
           = Inr (expanded_conv_graph\<lparr>g_node :=
                    [g_node dilated_conv_graph ! 0, g_node expanded_conv_graph ! 0,
                     make_node ''Constant'' [] [''W''] ''W''
                       [attr_tensor ''value'' (expanded_weight\<lparr>float_data := new_weight\<rparr>)]]\<rparr>,
                  [0], [])
         \<and> length new_weight = 9
         \<and> new_weight ! 0 = 1 \<and> new_weight ! 2 = 2 \<and> new_weight ! 6 = 3 \<and> new_weight ! 8 = 4
         \<and> new_weight ! 1 = 0 \<and> new_weight ! 4 = 0"
    using body' len taps zeros by blast
  have hyps: "op_type (g_node ?g ! 1) = ''Conv''"
    "conv_flags (n_attribute (g_node ?g ! 1)) (False, False, []) = (True, False, [2, 2])"
    "n_input (g_node ?g ! 1) = [''X'', ''W'']"
    "find_node_by_output_name ?g ''W'' = Some 0"
    "n_attribute (g_node ?g ! 0) = [attr_tensor ''value'' dilated_weight]"
    "dims dilated_weight = [1, 1, 2, 2]"
    "tensor_floats (\<lambda>bytes. 0) dilated_weight = Some [1, 2, 3, 4]"
    "find_value_by_name ?g ''W'' = Some 0"
    using h(2,3,7,8,10,11,14,16) by (simp_all add: attr_tensor_def)
  from hyps ex pass show ?thesis by (intro conjI)
qed

text \<open>
  C1. The claim fails on a Conv whose weight Constant has no ValueInfo among the
  intermediate values. In the graph below the Conv has dilations [2, 2], unit strides and
  the 2 x 2 kernel with rows (1, 2) and (3, 4). \<^verbatim>\<open>replace_dilated_conv\<close> builds the 3 x 3
  kernel and appends its Constant, then writes the new size into the ValueInfo that the
  lookup did not find, and raises. The Conv keeps kernel_shape [2, 2] and dilations
  [2, 2], and the old Constant stays in the graph beside the new one.
  \<^verbatim>\<open>replace_depthwise_1x1_with_bn\<close> makes the same lookup and tests its result before it
  writes.
\<close>

theorem dilated_conv_without_value_info_raises:
  "g_node dilated_conv_no_info_graph
     = [make_node ''Constant'' [] [''W''] ''W'' [attr_tensor ''value'' dilated_weight],
        make_node ''Conv'' [''X'', ''W''] [''Y''] ''conv''
          [attr_ints ''dilations'' [2, 2], attr_ints ''kernel_shape'' [2, 2],
           attr_ints ''strides'' [1, 1]]]
   \<and> dims dilated_weight = [1, 1, 2, 2] \<and> float_data dilated_weight = [1, 2, 3, 4]
   \<and> find_node_by_output_name dilated_conv_no_info_graph ''W'' = Some 0
   \<and> find_value_by_name dilated_conv_no_info_graph ''W'' = None
   \<and> replace_dilated_conv unpack_f dilated_conv_no_info_graph
       = Inl (AttributeError,
              \<lparr>g_node =
                 [make_node ''Constant'' [] [''W''] ''W'' [attr_tensor ''value'' dilated_weight],
                  make_node ''Conv'' [''X'', ''W''] [''Y''] ''conv''
                    [attr_ints ''dilations'' [2, 2], attr_ints ''kernel_shape'' [2, 2],
                     attr_ints ''strides'' [1, 1]],
                  make_node ''Constant'' [] [''W''] ''W'' [attr_tensor ''value'' expanded_weight]],
               g_input = [], g_output = [], g_initializer = [], g_value_info = []\<rparr>)"
proof -
  have u: "[0..<2] = [0, Suc 0]" by (simp add: numeral_2_eq_2)
  have ew: "expand_weight [Suc 0, Suc 0, 2, 2] 2 2 3 3 [1, 2, 3, 4]
              = Some [1, 0, 2, 0, 0, 0, 3, 0, 4]"
    by (simp add: expand_weight_def for_range_def copy_tap_def np_index_def flat_index_def u
        Let_def numeral_3_eq_3 numeral_2_eq_2)
  show ?thesis
    by (simp add: replace_dilated_conv_def replace_dilated_conv_body_def example_defs
        helper_defs tensor_floats_def ew set_spatial_dims_def set_two_def Let_def)
qed

end
